theory Spec2Isabelle
  imports Main
begin

section \<open>Errors\<close>

text \<open>
  Go errors as values. \<open>New m\<close> is an error made by \<^verbatim>\<open>errors.New(m)\<close> (every error that
  go-git or the token provider reports is one of these, told apart by its message), and
  \<open>Errorf p e\<close> is \<^verbatim>\<open>fmt.Errorf(p + "%w", e)\<close>: the message \<open>p\<close> with the verbs before
  \<^verbatim>\<open>%w\<close> already filled in, wrapped around the cause \<open>e\<close>.
\<close>

datatype error = New string | Errorf string error

fun Error :: "error \<Rightarrow> string" where
  "Error (New m) = m"
| "Error (Errorf p e) = p @ Error e"

fun Unwrap :: "error \<Rightarrow> error option" where
  "Unwrap (New m) = None"
| "Unwrap (Errorf p e) = Some e"

text \<open>\<^verbatim>\<open>strings.Contains(s, sub)\<close>, used to say that a message names an identifier.\<close>

fun Contains :: "string \<Rightarrow> string \<Rightarrow> bool" where
  "Contains [] sub = (sub = [])"
| "Contains (c # s) sub = (take (length sub) (c # s) = sub \<or> Contains s sub)"

section \<open>Data\<close>

type_synonym Time = int
type_synonym Hash = string
type_synonym ReferenceName = string

text \<open>The plumbing.Reference struct of go-git: its type, name, hash and symbolic target.\<close>

datatype ReferenceType = InvalidReference | HashReference | SymbolicReference

record Reference =
  t :: ReferenceType
  n :: ReferenceName
  h :: Hash
  target :: ReferenceName

definition NewHashReference :: "ReferenceName \<Rightarrow> Hash \<Rightarrow> Reference" where
  "NewHashReference name hash = \<lparr>t = HashReference, n = name, h = hash, target = []\<rparr>"

definition NewBranchReferenceName :: "string \<Rightarrow> ReferenceName" where
  "NewBranchReferenceName name = ''refs/heads/'' @ name"

definition NewRemoteReferenceName :: "string \<Rightarrow> string \<Rightarrow> ReferenceName" where
  "NewRemoteReferenceName remote name = ''refs/remotes/'' @ remote @ ''/'' @ name"

record Signature =
  Name :: string
  Email :: string
  When :: Time

record CommitOptions =
  All :: bool
  Author :: Signature
  Committer :: Signature

record CheckoutOptions =
  Branch :: ReferenceName
  Create :: bool

record BasicAuth =
  Username :: string
  Password :: string

record CloneOptions =
  ReferenceName :: ReferenceName
  URL :: string
  Auth :: BasicAuth

text \<open>git.PushOptions; its Auth field is written \<open>Auth'\<close>, the name being taken above.\<close>

record PushOptions =
  RefSpecs :: "string list"
  Auth' :: BasicAuth

text \<open>
  The fields of \<^verbatim>\<open>UpdateOptions.Git\<close> that commitChanges reads (the struct is declared
  outside git.go).
\<close>

record GitOptions =
  StagePatterns :: "string list"
  StageAllChanged :: bool
  CommitTitle :: string
  CommitBody :: string
  CommitFooter :: string
  AuthorName :: string
  AuthorEmail :: string
  CommitterName :: string
  CommitterEmail :: string

record UpdateOptions =
  Git :: GitOptions

text \<open>
  The repository identity (declared outside git.go): \<open>FullName\<close> stands for the result of
  its method \<^verbatim>\<open>FullName()\<close>, \<open>Params\<close> is its parameter map.
\<close>

record Repository =
  FullName :: string
  Params :: "string \<rightharpoonup> string"

record switchBranchOptions =
  BranchName :: string
  CreateBranch :: bool

text \<open>
  pushOptions; \<open>'o\<close> is the type GitHubOptions (declared outside git.go), and the field
  BranchName is written \<open>BranchName'\<close>, the name being taken above.
\<close>

record 'o pushOptions =
  GitHubOpts :: 'o
  BranchName' :: string
  ForcePush :: bool

section \<open>The collaborators\<close>

text \<open>
  git.go drives the go-git library and the token provider \<^verbatim>\<open>githubClient\<close>; neither is
  defined in git.go, so both are parameters of the model, collected in one record.
  \<open>'r\<close> is the state behind a \<^verbatim>\<open>*git.Repository\<close> (reference store, object store, index
  and working tree), \<open>'e\<close> is the world outside it (the remote, the token issuer, the
  local disk), \<open>'st\<close> is git.Status and \<open>'o\<close> is GitHubOptions. A call that only reads
  returns its result; a call that writes returns its result and the new state. A Go
  result \<^verbatim>\<open>(v, err)\<close> is \<open>Inl err\<close> or \<open>Inr v\<close>, except for \<open>Reference\<close>, where git.go
  reads the value next to a non-nil error and so both are kept (\<open>None\<close> is nil).
  \<open>Worktree\<close> gives the error of \<^verbatim>\<open>gitRepo.Worktree()\<close>, if any, and \<open>Root\<close> the result of
  \<^verbatim>\<open>workTree.Filesystem.Root()\<close>. The context is handed on to the calls as it is and is
  left out, and so are the log entries: they are not part of what the operations return.
\<close>

record ('r, 'e, 'st, 'o) deps =
  Worktree :: "'r \<Rightarrow> error option"
  Root :: "'r \<Rightarrow> string"
  Reference :: "ReferenceName \<Rightarrow> bool \<Rightarrow> 'r \<Rightarrow> Reference option \<times> error option"
  ReferenceString :: "Reference \<Rightarrow> string"
  SetReference :: "Reference \<Rightarrow> 'r \<Rightarrow> error option \<times> 'r"
  Checkout :: "CheckoutOptions \<Rightarrow> 'r \<Rightarrow> error option \<times> 'r"
  Status :: "'r \<Rightarrow> error + 'st"
  IsClean :: "'st \<Rightarrow> bool"
  AddGlob :: "string \<Rightarrow> 'r \<Rightarrow> error option \<times> 'r"
  Commit :: "string \<Rightarrow> CommitOptions \<Rightarrow> 'r \<Rightarrow> (error + Hash) \<times> 'r"
  PlainCloneContext :: "string \<Rightarrow> bool \<Rightarrow> CloneOptions \<Rightarrow> 'e \<Rightarrow> (error + 'r) \<times> 'e"
  PushContext :: "PushOptions \<Rightarrow> 'r \<Rightarrow> 'e \<Rightarrow> error option \<times> 'r \<times> 'e"
  githubClient :: "'o \<Rightarrow> 'e \<Rightarrow> (error + string) \<times> 'e"

section \<open>commitChanges\<close>

text \<open>The loop over \<^verbatim>\<open>options.Git.StagePatterns\<close>: it returns at the first failing pattern.\<close>

fun stagePatterns ::
  "('r, 'e, 'st, 'o) deps \<Rightarrow> string list \<Rightarrow> 'r \<Rightarrow> error option \<times> 'r" where
  "stagePatterns lib [] gitRepo = (None, gitRepo)"
| "stagePatterns lib (pattern # rest) gitRepo =
     (case AddGlob lib pattern gitRepo of
        (Some err, gitRepo') \<Rightarrow>
          (Some (Errorf (''failed to stage files using pattern '' @ pattern @ '': '') err),
           gitRepo')
      | (None, gitRepo') \<Rightarrow> stagePatterns lib rest gitRepo')"

text \<open>The strings.Builder that assembles the commit message.\<close>

definition commitMsg :: "GitOptions \<Rightarrow> string" where
  "commitMsg g =
     (let msg = CommitTitle g;
          msg = (if length (CommitBody g) > 0 then msg @ [CHR 0x0A, CHR 0x0A] @ CommitBody g
                 else msg);
          msg = (if length (CommitFooter g) > 0
                 then msg @ [CHR 0x0A, CHR 0x0A] @ ''-- '' @ [CHR 0x0A] @ CommitFooter g
                 else msg)
      in msg)"

text \<open>
  commitChanges returns its pair \<^verbatim>\<open>(bool, error)\<close> and the repository state it leaves.
  \<open>now\<close> is the reading of \<^verbatim>\<open>time.Now()\<close>; logging has no effect on the result.
\<close>

definition commitChanges ::
  "('r, 'e, 'st, 'o) deps \<Rightarrow> Time \<Rightarrow> 'r \<Rightarrow> UpdateOptions \<Rightarrow> (bool \<times> error option) \<times> 'r" where
  "commitChanges lib now gitRepo options =
     (case Worktree lib gitRepo of
        Some err \<Rightarrow> ((False, Some (Errorf ''failed to open worktree: '' err)), gitRepo)
      | None \<Rightarrow>
          (case Status lib gitRepo of
             Inl err \<Rightarrow>
               ((False, Some (Errorf ''failed to get the worktree status: '' err)), gitRepo)
           | Inr status \<Rightarrow>
               if IsClean lib status then ((False, None), gitRepo)
               else
                 (case stagePatterns lib (StagePatterns (Git options)) gitRepo of
                    (Some err, gitRepo1) \<Rightarrow> ((False, Some err), gitRepo1)
                  | (None, gitRepo1) \<Rightarrow>
                      (case Commit lib (commitMsg (Git options))
                              \<lparr>All = StageAllChanged (Git options),
                               Author = \<lparr>Name = AuthorName (Git options),
                                         Email = AuthorEmail (Git options), When = now\<rparr>,
                               Committer = \<lparr>Name = CommitterName (Git options),
                                            Email = CommitterEmail (Git options),
                                            When = now\<rparr>\<rparr>
                              gitRepo1 of
                         (Inl err, gitRepo2) \<Rightarrow>
                           ((False, Some (Errorf ''failed to commit: '' err)), gitRepo2)
                       | (Inr commit, gitRepo2) \<Rightarrow> ((True, None), gitRepo2)))))"

section \<open>cloneGitRepository\<close>

text \<open>
  \<^verbatim>\<open>strings.TrimSpace\<close> on the bytes of a Go string. It cuts the leading and the trailing
  white space as \<^verbatim>\<open>unicode.IsSpace\<close> defines it; a rune is white space exactly when the
  bytes at that place are its UTF-8 encoding, and these are the encodings: tab, line feed,
  vertical tab, form feed, carriage return, space, U+0085, U+00A0, U+1680, U+2000 to
  U+200A, U+2028, U+2029, U+202F, U+205F and U+3000. Any other byte, also one that is not
  valid UTF-8 (it decodes to U+FFFD), is not white space.
\<close>

definition space_encodings :: "string list" where
  "space_encodings =
     [[CHR 0x09], [CHR 0x0A], [CHR 0x0B], [CHR 0x0C], [CHR 0x0D], [CHR 0x20],
      [CHR 0xC2, CHR 0x85], [CHR 0xC2, CHR 0xA0],
      [CHR 0xE1, CHR 0x9A, CHR 0x80],
      [CHR 0xE2, CHR 0x80, CHR 0x80], [CHR 0xE2, CHR 0x80, CHR 0x81],
      [CHR 0xE2, CHR 0x80, CHR 0x82], [CHR 0xE2, CHR 0x80, CHR 0x83],
      [CHR 0xE2, CHR 0x80, CHR 0x84], [CHR 0xE2, CHR 0x80, CHR 0x85],
      [CHR 0xE2, CHR 0x80, CHR 0x86], [CHR 0xE2, CHR 0x80, CHR 0x87],
      [CHR 0xE2, CHR 0x80, CHR 0x88], [CHR 0xE2, CHR 0x80, CHR 0x89],
      [CHR 0xE2, CHR 0x80, CHR 0x8A],
      [CHR 0xE2, CHR 0x80, CHR 0xA8], [CHR 0xE2, CHR 0x80, CHR 0xA9],
      [CHR 0xE2, CHR 0x80, CHR 0xAF], [CHR 0xE2, CHR 0x81, CHR 0x9F],
      [CHR 0xE3, CHR 0x80, CHR 0x80]]"

text \<open>
  \<open>trimLeading encs s\<close> cuts from the front of \<open>s\<close>, as long as there is one, a member of
  \<open>encs\<close> that \<open>s\<close> starts with (the members are not empty).
\<close>

fun trimLeading :: "string list \<Rightarrow> string \<Rightarrow> string" where
  "trimLeading encs [] = []"
| "trimLeading encs (c # cs) =
     (case find (\<lambda>e. take (length e) (c # cs) = e) encs of
        None \<Rightarrow> c # cs
      | Some e \<Rightarrow> trimLeading encs (drop (length e - 1) cs))"

definition TrimLeft :: "string \<Rightarrow> string" where
  "TrimLeft s = trimLeading space_encodings s"

text \<open>The last rune is white space exactly when the string ends with its encoding.\<close>

definition TrimRight :: "string \<Rightarrow> string" where
  "TrimRight s = rev (trimLeading (map rev space_encodings) (rev s))"

definition TrimSpace :: "string \<Rightarrow> string" where
  "TrimSpace s = TrimRight (TrimLeft s)"

text \<open>Lines 21 to 25: the reference to clone.\<close>

definition cloneReference :: "Repository \<Rightarrow> ReferenceName" where
  "cloneReference repo =
     (case Params repo ''branch'' of
        Some b \<Rightarrow> if TrimSpace b \<noteq> [] then ''refs/heads/'' @ b else ''HEAD''
      | None \<Rightarrow> ''HEAD'')"

definition cloneURL :: "Repository \<Rightarrow> string" where
  "cloneURL repo = ''https://github.worldpay.com/'' @ FullName repo @ ''.git''"

text \<open>
  cloneGitRepository returns \<open>Inl err\<close> or \<open>Inr gitRepo\<close>, and the world it leaves. The token
  is fetched first; the clone runs in the world the fetch has left.
\<close>

definition cloneGitRepository ::
  "('r, 'e, 'st, 'o) deps \<Rightarrow> Repository \<Rightarrow> string \<Rightarrow> 'o \<Rightarrow> 'e \<Rightarrow> (error + 'r) \<times> 'e" where
  "cloneGitRepository lib repo localPath options env =
     (let url = cloneURL repo;
          referenceName = cloneReference repo
      in case githubClient lib options env of
           (Inl err, env1) \<Rightarrow> (Inl (Errorf ''failed to create github client: '' err), env1)
         | (Inr token, env1) \<Rightarrow>
             (case PlainCloneContext lib localPath False
                     \<lparr>ReferenceName = referenceName, URL = url,
                      Auth = \<lparr>Username = ''x-access-token'', Password = token\<rparr>\<rparr> env1 of
                (Inl err, env2) \<Rightarrow>
                  (Inl (Errorf (''failed to clone git repository from '' @ url @ '' to ''
                                @ localPath @ '': '') err), env2)
              | (Inr gitRepo, env2) \<Rightarrow> (Inr gitRepo, env2)))"

section \<open>switchBranch\<close>

text \<open>
  A call of switchBranch returns, or panics: \<^verbatim>\<open>remoteBranchRef.Hash()\<close> dereferences a nil
  pointer when the lookup gives neither a reference nor an error.
\<close>

datatype 'a outcome = Return 'a | Panic

text \<open>
  The verb \<^verbatim>\<open>%s\<close> applied to a \<^verbatim>\<open>*plumbing.Reference\<close>: the result of its method String,
  and \<^verbatim>\<open><nil>\<close> for a nil pointer (the method dereferences its receiver, and fmt prints
  \<^verbatim>\<open><nil>\<close> when a String method panics on a nil receiver).
\<close>

definition fmt_Reference :: "('r, 'e, 'st, 'o) deps \<Rightarrow> Reference option \<Rightarrow> string" where
  "fmt_Reference lib ref = (case ref of None \<Rightarrow> ''<nil>'' | Some r \<Rightarrow> ReferenceString lib r)"

text \<open>Lines 90 to 101: the checkout and the return.\<close>

definition checkoutBranch ::
  "('r, 'e, 'st, 'o) deps \<Rightarrow> 'r \<Rightarrow> switchBranchOptions \<Rightarrow> error option \<times> 'r" where
  "checkoutBranch lib gitRepo opts =
     (case Checkout lib \<lparr>Branch = NewBranchReferenceName (BranchName opts),
                         Create = CreateBranch opts\<rparr> gitRepo of
        (Some err, gitRepo') \<Rightarrow>
          (Some (Errorf (''failed to checkout the branch '' @ BranchName opts @ '': '') err),
           gitRepo')
      | (None, gitRepo') \<Rightarrow> (None, gitRepo'))"

definition switchBranch ::
  "('r, 'e, 'st, 'o) deps \<Rightarrow> 'r \<Rightarrow> switchBranchOptions \<Rightarrow> (error option \<times> 'r) outcome" where
  "switchBranch lib gitRepo opts =
     (case Worktree lib gitRepo of
        Some err \<Rightarrow> Return (Some (Errorf ''failed to open worktree: '' err), gitRepo)
      | None \<Rightarrow>
          if \<not> CreateBranch opts then
            (case Reference lib (NewRemoteReferenceName ''origin'' (BranchName opts)) True
                    gitRepo of
               (remoteBranchRef, Some err) \<Rightarrow>
                 Return (Some (Errorf (''failed to get the reference for ''
                                       @ fmt_Reference lib remoteBranchRef @ '': '') err),
                         gitRepo)
             | (None, None) \<Rightarrow> Panic
             | (Some remoteBranchRef, None) \<Rightarrow>
                 (case SetReference lib
                         (NewHashReference (NewBranchReferenceName (BranchName opts))
                            (h remoteBranchRef)) gitRepo of
                    (Some err, gitRepo1) \<Rightarrow>
                      Return (Some (Errorf (''failed to store the reference for branch ''
                                            @ BranchName opts @ '': '') err), gitRepo1)
                  | (None, gitRepo1) \<Rightarrow> Return (checkoutBranch lib gitRepo1 opts)))
          else Return (checkoutBranch lib gitRepo opts))"

section \<open>pushChanges\<close>

text \<open>\<^verbatim>\<open>filepath.Base\<close> with the separator \<^verbatim>\<open>/\<close>: the last element of a path.\<close>

definition filepath_Base :: "string \<Rightarrow> string" where
  "filepath_Base path =
     (if path = [] then ''.''
      else
        let stripped = rev (dropWhile (\<lambda>c. c = CHR ''/'') (rev path));
            last_element = rev (takeWhile (\<lambda>c. c \<noteq> CHR ''/'') (rev stripped))
        in if last_element = [] then ''/'' else last_element)"

text \<open>Lines 185 to 190: the refspec.\<close>

definition pushRefSpec :: "string \<Rightarrow> bool \<Rightarrow> string" where
  "pushRefSpec branchName forcePush =
     (let refSpec = ''refs/heads/'' @ branchName @ '':refs/heads/'' @ branchName
      in if forcePush then ''+'' @ refSpec else refSpec)"

text \<open>pushChanges returns its error, the repository state and the world it leaves.\<close>

definition pushChanges ::
  "('r, 'e, 'st, 'o) deps \<Rightarrow> 'r \<Rightarrow> 'o pushOptions \<Rightarrow> 'e \<Rightarrow> error option \<times> 'r \<times> 'e" where
  "pushChanges lib gitRepo opts env =
     (case Worktree lib gitRepo of
        Some err \<Rightarrow> (Some (Errorf ''failed to open worktree: '' err), gitRepo, env)
      | None \<Rightarrow>
          (let repoName = filepath_Base (Root lib gitRepo);
               refSpec = pushRefSpec (BranchName' opts) (ForcePush opts)
           in case githubClient lib (GitHubOpts opts) env of
                (Inl err, env1) \<Rightarrow>
                  (Some (Errorf ''failed to create github client: '' err), gitRepo, env1)
              | (Inr token, env1) \<Rightarrow>
                  (case PushContext lib
                          \<lparr>RefSpecs = [refSpec],
                           Auth' = \<lparr>Username = ''x-access-token'', Password = token\<rparr>\<rparr>
                          gitRepo env1 of
                     (Some err, gitRepo', env2) \<Rightarrow>
                       (Some (Errorf (''failed to push branch '' @ BranchName' opts @ '' to ''
                                      @ repoName @ '': '') err), gitRepo', env2)
                   | (None, gitRepo', env2) \<Rightarrow> (None, gitRepo', env2))))"

section \<open>The vocabulary of the specification\<close>

text \<open>
  A string is blank when it is made of white space only: it is a concatenation of
  encodings of white-space runes (the empty string is the empty concatenation).
\<close>

definition made_of :: "string list \<Rightarrow> string \<Rightarrow> bool" where
  "made_of encs s = (\<exists>ws. set ws \<subseteq> set encs \<and> s = concat ws)"

definition blank :: "string \<Rightarrow> bool" where
  "blank s = made_of space_encodings s"

text \<open>
  git.go returns untyped errors; the kinds of the specification are told apart by the
  message that wraps the cause.
\<close>

fun wraps :: "string \<Rightarrow> error \<Rightarrow> bool" where
  "wraps p (New m) = False"
| "wraps p (Errorf m e) = (take (length p) m = p)"

definition BranchResolutionError :: "error \<Rightarrow> bool" where
  "BranchResolutionError e = wraps ''failed to get the reference for '' e"

definition StageError :: "error \<Rightarrow> bool" where
  "StageError e = wraps ''failed to stage files using pattern '' e"

text \<open>
  The state in which the patterns \<open>ps\<close> leave the repository when each of them is handed
  to AddGlob in the order of the list, and whether none of them fails on the way.
\<close>

definition staged_by :: "('r, 'e, 'st, 'o) deps \<Rightarrow> string list \<Rightarrow> 'r \<Rightarrow> 'r" where
  "staged_by lib ps gitRepo = foldl (\<lambda>r p. snd (AddGlob lib p r)) gitRepo ps"

definition all_staged :: "('r, 'e, 'st, 'o) deps \<Rightarrow> string list \<Rightarrow> 'r \<Rightarrow> bool" where
  "all_staged lib ps gitRepo =
     list_all (\<lambda>i. fst (AddGlob lib (ps ! i) (staged_by lib (take i ps) gitRepo)) = None)
       [0..<length ps]"

section \<open>An in-memory stand-in for the collaborators\<close>

text \<open>
  To run the four operations on concrete inputs, the library and the token provider are
  replaced by a small in-memory stand-in. Its repository holds a reference store, the
  paths of the working tree, those that are modified and those that are staged, and the
  commits made; its world holds the answers the token issuer will give, in order, and the
  pushes and clones the remote has received. It follows go-git where the examples depend
  on it: a lookup of a missing reference gives a nil reference and the error
  \<^verbatim>\<open>reference not found\<close>, AddGlob gives the error
  \<^verbatim>\<open>glob pattern did not match any files\<close> for a pattern that matches no path (a pattern
  without wildcard matches the path it spells), and a bare repository has no worktree.
\<close>

record mem_repo =
  bare :: bool
  root :: string
  refs :: "(ReferenceName \<times> Reference) list"
  head :: ReferenceName
  paths :: "string list"
  modified :: "string list"
  staged :: "string list"
  commits :: "(string \<times> string list) list"

record mem_world =
  tokens :: "(error + string) list"
  clones :: "(string \<times> CloneOptions) list"
  pushes :: "PushOptions list"

definition mem_Checkout :: "CheckoutOptions \<Rightarrow> mem_repo \<Rightarrow> error option \<times> mem_repo" where
  "mem_Checkout opts r =
     (case map_of (refs r) (Branch opts) of
        None \<Rightarrow>
          if Create opts
          then (case map_of (refs r) (head r) of
                  None \<Rightarrow> (Some (New ''reference not found''), r)
                | Some cur \<Rightarrow>
                    (None, r\<lparr>refs := (Branch opts, NewHashReference (Branch opts) (h cur))
                                       # refs r,
                              head := Branch opts\<rparr>))
          else (Some (New ''reference not found''), r)
      | Some ref \<Rightarrow>
          if Create opts then (Some (New ''a branch with that name already exists''), r)
          else (None, r\<lparr>head := Branch opts\<rparr>))"

definition mem_AddGlob :: "string \<Rightarrow> mem_repo \<Rightarrow> error option \<times> mem_repo" where
  "mem_AddGlob pattern r =
     (if pattern \<in> set (paths r)
      then (if pattern \<in> set (modified r)
            then (None, r\<lparr>modified := removeAll pattern (modified r),
                           staged := staged r @ [pattern]\<rparr>)
            else (None, r))
      else (Some (New ''glob pattern did not match any files''), r))"

definition mem_Commit ::
  "string \<Rightarrow> CommitOptions \<Rightarrow> mem_repo \<Rightarrow> (error + Hash) \<times> mem_repo" where
  "mem_Commit msg opts r =
     (let content = (if All opts then staged r @ modified r else staged r)
      in if content = [] then (Inl (New ''cannot create empty commit: clean working tree''), r)
         else (Inr (''commit '' @ msg),
               r\<lparr>modified := (if All opts then [] else modified r), staged := [],
                 commits := commits r @ [(msg, content)]\<rparr>))"

definition mem_githubClient :: "unit \<Rightarrow> mem_world \<Rightarrow> (error + string) \<times> mem_world" where
  "mem_githubClient opts w =
     (case tokens w of
        [] \<Rightarrow> (Inl (New ''no installation token''), w)
      | answer # rest \<Rightarrow> (answer, w\<lparr>tokens := rest\<rparr>))"

definition fresh_clone :: mem_repo where
  "fresh_clone =
     \<lparr>bare = False, root = ''/tmp/work/octopilot'',
      refs = [(''refs/heads/main'', NewHashReference ''refs/heads/main'' ''a1''),
              (''refs/remotes/origin/main'',
               NewHashReference ''refs/remotes/origin/main'' ''a1''),
              (''refs/remotes/origin/update'',
               NewHashReference ''refs/remotes/origin/update'' ''b2'')],
      head = ''refs/heads/main'',
      paths = [''README.md'', ''go.mod''], modified = [], staged = [], commits = []\<rparr>"

definition mem :: "(mem_repo, mem_world, string list, unit) deps" where
  "mem =
     \<lparr>Worktree = (\<lambda>r. if bare r then Some (New ''worktree not available in a bare repository'')
                       else None),
      Root = root,
      Reference = (\<lambda>name resolved r.
         case map_of (refs r) name of
           None \<Rightarrow> (None, Some (New ''reference not found''))
         | Some ref \<Rightarrow> (Some ref, None)),
      ReferenceString = (\<lambda>ref. h ref @ '' '' @ n ref),
      SetReference = (\<lambda>ref r. (None, r\<lparr>refs := (n ref, ref) # refs r\<rparr>)),
      Checkout = mem_Checkout,
      Status = (\<lambda>r. Inr (staged r @ modified r)),
      IsClean = (\<lambda>status. status = []),
      AddGlob = mem_AddGlob,
      Commit = mem_Commit,
      PlainCloneContext = (\<lambda>localPath isBare opts w.
         (Inr (fresh_clone\<lparr>bare := isBare, root := localPath\<rparr>),
          w\<lparr>clones := clones w @ [(localPath, opts)]\<rparr>)),
      PushContext = (\<lambda>opts r w. (None, r, w\<lparr>pushes := pushes w @ [opts]\<rparr>)),
      githubClient = mem_githubClient\<rparr>"

text \<open>A clone in which README.md has been edited since, and a world with two tokens left.\<close>

definition edited_clone :: mem_repo where
  "edited_clone = fresh_clone\<lparr>modified := [''README.md'']\<rparr>"

definition two_tokens :: mem_world where
  "two_tokens = \<lparr>tokens = [Inr ''t1'', Inr ''t2''], clones = [], pushes = []\<rparr>"

definition example_options :: UpdateOptions where
  "example_options =
     \<lparr>Git = \<lparr>StagePatterns = [''README.md''], StageAllChanged = False,
             CommitTitle = ''T'', CommitBody = ''B'', CommitFooter = ''F'',
             AuthorName = ''octopilot'', AuthorEmail = ''bot@example.com'',
             CommitterName = ''octopilot'', CommitterEmail = ''bot@example.com''\<rparr>\<rparr>"

definition unmatched_options :: UpdateOptions where
  "unmatched_options =
     example_options\<lparr>Git := (Git example_options)\<lparr>StagePatterns := [''CHANGELOG.md'', ''README.md'']\<rparr>\<rparr>"

definition committed_clone :: mem_repo where
  "committed_clone =
     edited_clone\<lparr>modified := [], staged := [],
                  commits := [(''T\<newline>\<newline>B\<newline>\<newline>-- \<newline>F'', [''README.md''])]\<rparr>"

definition example_push :: "unit pushOptions" where
  "example_push = \<lparr>GitHubOpts = (), BranchName' = ''update'', ForcePush = True\<rparr>"

definition example_repository :: Repository where
  "example_repository = \<lparr>FullName = ''mattzech/octopilot'', Params = [''branch'' \<mapsto> ''update'']\<rparr>"

definition blank_branch_repository :: Repository where
  "blank_branch_repository =
     \<lparr>FullName = ''mattzech/octopilot'', Params = [''branch'' \<mapsto> [CHR 0x20, CHR 0x09, CHR 0xC2, CHR 0xA0]]\<rparr>"

definition after_clone :: mem_world where
  "after_clone =
     \<lparr>tokens = [Inr ''t2''],
      clones = [(''/tmp/work/octopilot'',
                 \<lparr>ReferenceName = ''refs/heads/update'',
                  URL = ''https://github.worldpay.com/mattzech/octopilot.git'',
                  Auth = \<lparr>Username = ''x-access-token'', Password = ''t1''\<rparr>\<rparr>)],
      pushes = []\<rparr>"

definition token_failure :: mem_world where
  "token_failure = after_clone\<lparr>tokens := [Inl (New ''could not refresh installation token'')]\<rparr>"

section \<open>strings.TrimSpace gives the empty string exactly on blank strings\<close>

lemma enc_nonempty: "\<forall>e\<in>set space_encodings. e \<noteq> []"
  by (simp add: space_encodings_def)

lemma enc_prefix_free:
  "\<forall>e\<in>set space_encodings. \<forall>e'\<in>set space_encodings. take (length e) e' = e \<longrightarrow> e = e'"
  by (simp add: space_encodings_def)

lemma find_prefix_unique:
  assumes pf: "\<forall>e\<in>set encs. \<forall>e'\<in>set encs. take (length e) e' = e \<longrightarrow> e = e'"
    and e: "e \<in> set encs"
  shows "find (\<lambda>x. take (length x) (e @ rest) = x) encs = Some e"
proof (cases "find (\<lambda>x. take (length x) (e @ rest) = x) encs")
  case None
  then have "\<not> take (length e) (e @ rest) = e" using e by (auto simp: find_None_iff)
  then show ?thesis by simp
next
  case (Some x)
  then have x: "x \<in> set encs" and px: "take (length x) (e @ rest) = x"
    by (auto simp: find_Some_iff)
  have "x = e"
  proof (cases "length x \<le> length e")
    case True
    with px have "take (length x) e = x" by simp
    with pf x e show ?thesis by blast
  next
    case False
    with px have "take (length e) x = e"
      by (metis append_eq_conv_conj linorder_not_le nat_less_le take_take min.absorb1)
    with pf x e show ?thesis by metis
  qed
  with Some show ?thesis by simp
qed

lemma trimLeading_made_of:
  assumes ne: "\<forall>e\<in>set encs. e \<noteq> []"
    and pf: "\<forall>e\<in>set encs. \<forall>e'\<in>set encs. take (length e) e' = e \<longrightarrow> e = e'"
  shows "set ws \<subseteq> set encs \<Longrightarrow> trimLeading encs (concat ws @ s) = trimLeading encs s"
proof (induction ws)
  case Nil
  then show ?case by simp
next
  case (Cons e ws)
  then have e: "e \<in> set encs" and ws: "set ws \<subseteq> set encs" by auto
  from ne e obtain c cs where ecs: "e = c # cs" by (cases e) auto
  have f: "find (\<lambda>x. take (length x) (e @ (concat ws @ s)) = x) encs = Some e"
    using find_prefix_unique [OF pf e] .
  have "trimLeading encs (concat (e # ws) @ s) = trimLeading encs (c # (cs @ concat ws @ s))"
    by (simp add: ecs)
  also have "\<dots> = trimLeading encs (drop (length e - 1) (cs @ concat ws @ s))"
    using f by (simp add: ecs)
  also have "\<dots> = trimLeading encs (concat ws @ s)" by (simp add: ecs)
  finally show ?case using Cons.IH [OF ws] by simp
qed

lemma trimLeading_split:
  assumes ne: "\<forall>e\<in>set encs. e \<noteq> []"
  shows "\<exists>ws. set ws \<subseteq> set encs \<and> s = concat ws @ trimLeading encs s"
  using ne
proof (induction encs s rule: trimLeading.induct)
  case (1 encs)
  show ?case by (rule exI [of _ "[]"]) simp
next
  case (2 encs c cs)
  show ?case
  proof (cases "find (\<lambda>e. take (length e) (c # cs) = e) encs")
    case None
    then show ?thesis by (intro exI [of _ "[]"]) simp
  next
    case (Some e)
    then have e: "e \<in> set encs" and pe: "take (length e) (c # cs) = e"
      by (auto simp: find_Some_iff)
    from "2.IH" [OF Some "2.prems"] obtain ws where ws: "set ws \<subseteq> set encs"
      and eq: "drop (length e - 1) cs = concat ws @ trimLeading encs (drop (length e - 1) cs)"
      by blast
    from "2.prems" e have "e \<noteq> []" by blast
    then have "c # cs = e @ drop (length e - 1) cs"
      using pe by (metis One_nat_def Suc_pred append_take_drop_id drop_Suc_Cons length_greater_0_conv)
    moreover have "trimLeading encs (c # cs) = trimLeading encs (drop (length e - 1) cs)"
      using Some by simp
    ultimately have "c # cs = concat (e # ws) @ trimLeading encs (c # cs)"
      using eq by (metis append_assoc concat.simps(2))
    with e ws show ?thesis by (intro exI [of _ "e # ws"]) simp
  qed
qed

lemma trimLeading_no_prefix:
  "trimLeading encs s \<noteq> [] \<Longrightarrow> find (\<lambda>e. take (length e) (trimLeading encs s) = e) encs = None"
proof (induction encs s rule: trimLeading.induct)
  case (1 encs)
  then show ?case by simp
next
  case (2 encs c cs)
  show ?case
  proof (cases "find (\<lambda>e. take (length e) (c # cs) = e) encs")
    case None
    then show ?thesis by simp
  next
    case (Some e)
    with 2 show ?thesis by simp
  qed
qed

lemma made_of_starts:
  assumes ne: "\<forall>e\<in>set encs. e \<noteq> []" and m: "made_of encs s" and s: "s \<noteq> []"
  shows "find (\<lambda>e. take (length e) s = e) encs \<noteq> None"
proof -
  from m obtain ws where ws: "set ws \<subseteq> set encs" and eq: "s = concat ws"
    unfolding made_of_def by blast
  from s eq obtain e ws' where "ws = e # ws'" by (cases ws) auto
  with ws eq have "e \<in> set encs" "take (length e) s = e" by auto
  then show ?thesis by (auto simp: find_None_iff)
qed

lemma made_of_rev:
  assumes "made_of (map rev encs) s"
  shows "made_of encs (rev s)"
proof -
  from assms obtain ws where ws: "set ws \<subseteq> set (map rev encs)" and eq: "s = concat ws"
    unfolding made_of_def by blast
  have "set (rev (map rev ws)) \<subseteq> set encs" using ws by auto
  moreover have "rev s = concat (rev (map rev ws))" using eq by (simp add: rev_concat rev_map)
  ultimately show ?thesis unfolding made_of_def by blast
qed

lemma TrimSpace_empty_iff: "TrimSpace s = [] \<longleftrightarrow> blank s"
  unfolding blank_def
proof
  assume "made_of space_encodings s"
  then obtain ws where ws: "set ws \<subseteq> set space_encodings" and eq: "s = concat ws"
    unfolding made_of_def by blast
  have "trimLeading space_encodings (concat ws @ []) = trimLeading space_encodings []"
    using trimLeading_made_of [OF enc_nonempty enc_prefix_free ws] .
  then have "TrimLeft s = []" by (simp add: TrimLeft_def eq)
  then show "TrimSpace s = []" by (simp add: TrimSpace_def TrimRight_def)
next
  assume t: "TrimSpace s = []"
  let ?l = "TrimLeft s"
  have rne: "\<forall>e\<in>set (map rev space_encodings). e \<noteq> []" using enc_nonempty by simp
  from t have "trimLeading (map rev space_encodings) (rev ?l) = []"
    by (simp add: TrimSpace_def TrimRight_def)
  with trimLeading_split [OF rne, of "rev ?l"] have "made_of (map rev space_encodings) (rev ?l)"
    unfolding made_of_def by simp
  then have m: "made_of space_encodings ?l" using made_of_rev by fastforce
  have "?l = []"
  proof (rule ccontr)
    assume n: "?l \<noteq> []"
    from made_of_starts [OF enc_nonempty m n] trimLeading_no_prefix [of space_encodings s] n
    show False by (simp add: TrimLeft_def)
  qed
  with trimLeading_split [OF enc_nonempty, of s] show "made_of space_encodings s"
    unfolding made_of_def by (simp add: TrimLeft_def)
qed

text \<open>The definitions that running the stand-in unfolds.\<close>

lemmas mem_simps = mem_def fresh_clone_def edited_clone_def example_options_def
  mem_AddGlob_def mem_Commit_def mem_Checkout_def mem_githubClient_def two_tokens_def
  NewHashReference_def NewBranchReferenceName_def NewRemoteReferenceName_def

section \<open>The staging loop\<close>

lemma stagePatterns_append:
  "stagePatterns lib (ps @ qs) r =
     (case stagePatterns lib ps r of
        (Some e, r') \<Rightarrow> (Some e, r')
      | (None, r') \<Rightarrow> stagePatterns lib qs r')"
proof (induction ps arbitrary: r)
  case Nil
  show ?case by simp
next
  case (Cons p ps)
  obtain res r1 where a: "AddGlob lib p r = (res, r1)" by (cases "AddGlob lib p r")
  show ?case
  proof (cases res)
    case None
    with a Cons.IH [of r1] show ?thesis by simp
  next
    case (Some e)
    with a show ?thesis by simp
  qed
qed

lemma staged_by_snoc: "staged_by lib (ps @ [p]) r = snd (AddGlob lib p (staged_by lib ps r))"
  by (simp add: staged_by_def)

lemma all_staged_snoc:
  "all_staged lib (ps @ [p]) r
     = (all_staged lib ps r \<and> fst (AddGlob lib p (staged_by lib ps r)) = None)"
proof -
  have "list_all (\<lambda>i. fst (AddGlob lib ((ps @ [p]) ! i) (staged_by lib (take i (ps @ [p])) r)) = None)
          [0..<length ps]
        = list_all (\<lambda>i. fst (AddGlob lib (ps ! i) (staged_by lib (take i ps) r)) = None)
          [0..<length ps]"
    by (simp add: list_all_iff nth_append)
  then show ?thesis by (simp add: all_staged_def)
qed

lemma stagePatterns_None_iff:
  "stagePatterns lib ps r = (None, r1) \<longleftrightarrow> all_staged lib ps r \<and> r1 = staged_by lib ps r"
proof (induction ps arbitrary: r1 rule: rev_induct)
  case Nil
  show ?case by (auto simp: all_staged_def staged_by_def)
next
  case (snoc p ps)
  obtain res r0 where s: "stagePatterns lib ps r = (res, r0)"
    by (cases "stagePatterns lib ps r")
  show ?case
  proof (cases res)
    case (Some e)
    with s snoc.IH [of "staged_by lib ps r"] have "\<not> all_staged lib ps r" by simp
    with s Some show ?thesis by (simp add: stagePatterns_append all_staged_snoc)
  next
    case None
    with s snoc.IH [of r0] have ok: "all_staged lib ps r" and r0: "r0 = staged_by lib ps r"
      by simp_all
    obtain res' r2 where a: "AddGlob lib p r0 = (res', r2)" by (cases "AddGlob lib p r0")
    show ?thesis
    proof (cases res')
      case None
      with s \<open>res = None\<close> a ok r0 show ?thesis
        by (auto simp: stagePatterns_append all_staged_snoc staged_by_snoc)
    next
      case (Some e)
      with s \<open>res = None\<close> a ok r0 show ?thesis
        by (simp add: stagePatterns_append all_staged_snoc staged_by_snoc)
    qed
  qed
qed

lemma stagePatterns_fails_at:
  assumes "all_staged lib pre r"
    and "AddGlob lib pattern (staged_by lib pre r) = (Some err, r')"
  shows "stagePatterns lib (pre @ pattern # post) r
           = (Some (Errorf (''failed to stage files using pattern '' @ pattern @ '': '') err), r')"
proof -
  from assms(1) have "stagePatterns lib pre r = (None, staged_by lib pre r)"
    by (simp add: stagePatterns_None_iff)
  with assms(2) show ?thesis by (simp add: stagePatterns_append)
qed

lemma stagePatterns_skip:
  assumes "AddGlob lib pattern (staged_by lib pre r) = (None, staged_by lib pre r)"
  shows "stagePatterns lib (pre @ pattern # post) r = stagePatterns lib (pre @ post) r"
proof -
  obtain res r0 where s: "stagePatterns lib pre r = (res, r0)"
    by (cases "stagePatterns lib pre r")
  show ?thesis
  proof (cases res)
    case (Some e)
    with s show ?thesis by (simp add: stagePatterns_append)
  next
    case None
    with s have "r0 = staged_by lib pre r" by (simp add: stagePatterns_None_iff)
    with s None assms show ?thesis by (simp add: stagePatterns_append)
  qed
qed

lemma Contains_take: "take (length sub) s = sub \<Longrightarrow> Contains s sub"
  by (cases s) auto

lemma Contains_prefix: "Contains (sub @ s) sub"
  by (rule Contains_take) simp

lemma Contains_append: "Contains (p @ sub @ s) sub"
  by (induction p) (auto simp: Contains_prefix)

section \<open>Properties of commitChanges\<close>

text \<open>
  C1. When the working tree is clean at the time commitChanges is called (the worktree
  opens, the status is computed and it is clean), commitChanges returns false and no
  error and leaves the repository as it found it: no commit is made and nothing is
  staged. The result stays the same when AddGlob and Commit are replaced by anything
  else, since neither is called.
\<close>

theorem commitChanges_clean:
  assumes "Worktree lib gitRepo = None" and "Status lib gitRepo = Inr status"
    and "IsClean lib status"
  shows "commitChanges lib now gitRepo options = ((False, None), gitRepo)
       \<and> commitChanges (lib\<lparr>AddGlob := stage, Commit := commit\<rparr>) now gitRepo options
           = ((False, None), gitRepo)"
  using assms by (simp add: commitChanges_def)

theorem commitChanges_clean_witness:
  "Worktree mem fresh_clone = None \<and> Status mem fresh_clone = Inr [] \<and> IsClean mem []
   \<and> commitChanges mem 0 fresh_clone example_options = ((False, None), fresh_clone)"
  using commitChanges_clean [of mem fresh_clone "[]" 0 example_options]
  by (simp add: mem_def fresh_clone_def)

text \<open>
  C2. The commit message is the title, then two newlines and the body when the body is
  not empty, then two newlines, the line \<^verbatim>\<open>-- \<close>, a newline and the footer when the
  footer is not empty, and nothing else is done to it. Title T, body B and footer F give
  \<^verbatim>\<open>T\n\nB\n\n-- \nF\<close>; a title alone gives \<^verbatim>\<open>T\<close>. This is the message commitChanges hands to
  Commit once the patterns are staged.
\<close>

theorem commitChanges_message:
  "commitMsg g =
     CommitTitle g
     @ (if CommitBody g = [] then [] else ''\<newline>\<newline>'' @ CommitBody g)
     @ (if CommitFooter g = [] then [] else ''\<newline>\<newline>-- \<newline>'' @ CommitFooter g)
   \<and> commitMsg (g\<lparr>CommitTitle := ''T'', CommitBody := ''B'', CommitFooter := ''F''\<rparr>)
       = ''T\<newline>\<newline>B\<newline>\<newline>-- \<newline>F''
   \<and> commitMsg (g\<lparr>CommitTitle := ''T'', CommitBody := [], CommitFooter := []\<rparr>) = ''T''
   \<and> (Worktree lib gitRepo = None \<and> Status lib gitRepo = Inr status \<and> \<not> IsClean lib status
        \<and> stagePatterns lib (StagePatterns (Git options)) gitRepo = (None, gitRepo1)
      \<longrightarrow> commitChanges lib now gitRepo options =
           (case Commit lib
                   (CommitTitle (Git options)
                    @ (if CommitBody (Git options) = [] then []
                       else ''\<newline>\<newline>'' @ CommitBody (Git options))
                    @ (if CommitFooter (Git options) = [] then []
                       else ''\<newline>\<newline>-- \<newline>'' @ CommitFooter (Git options)))
                   \<lparr>All = StageAllChanged (Git options),
                    Author = \<lparr>Name = AuthorName (Git options),
                              Email = AuthorEmail (Git options), When = now\<rparr>,
                    Committer = \<lparr>Name = CommitterName (Git options),
                                 Email = CommitterEmail (Git options), When = now\<rparr>\<rparr>
                   gitRepo1 of
              (Inl err, gitRepo2) \<Rightarrow>
                ((False, Some (Errorf ''failed to commit: '' err)), gitRepo2)
            | (Inr commit, gitRepo2) \<Rightarrow> ((True, None), gitRepo2)))"
  by (simp add: commitMsg_def commitChanges_def)

theorem commitChanges_message_witness:
  "commitChanges mem 0 edited_clone example_options =
     ((True, None),
      edited_clone\<lparr>modified := [], staged := [],
                   commits := [(''T\<newline>\<newline>B\<newline>\<newline>-- \<newline>F'', [''README.md''])]\<rparr>)"
  using commitChanges_message [of "Git example_options" mem edited_clone "[''README.md'']"
      example_options "edited_clone\<lparr>modified := [], staged := [''README.md'']\<rparr>" 0]
  by (simp add: mem_def edited_clone_def fresh_clone_def example_options_def mem_AddGlob_def
      mem_Commit_def)

text \<open>
  C10. Whenever commitChanges returns an error, its boolean is false; the boolean is true
  only when Commit has returned a commit, and then there is no error.
\<close>

theorem commitChanges_changed_without_error:
  assumes r: "commitChanges lib now gitRepo options = ((changed, err), gitRepo')"
  shows "(err \<noteq> None \<longrightarrow> \<not> changed)
       \<and> (changed \<longrightarrow> err = None
            \<and> (\<exists>commit gitRepo1 copts.
                  Commit lib (commitMsg (Git options)) copts gitRepo1 = (Inr commit, gitRepo')))"
proof (cases "Worktree lib gitRepo")
  case (Some e)
  with r show ?thesis by (simp add: commitChanges_def)
next
  case None
  note wt = this
  show ?thesis
  proof (cases "Status lib gitRepo")
    case (Inl e)
    with wt r show ?thesis by (simp add: commitChanges_def)
  next
    case (Inr status)
    note st = this
    show ?thesis
    proof (cases "IsClean lib status")
      case True
      with wt st r show ?thesis by (simp add: commitChanges_def)
    next
      case False
      note dirty = this
      obtain serr gitRepo1 where sp:
        "stagePatterns lib (StagePatterns (Git options)) gitRepo = (serr, gitRepo1)"
        by (cases "stagePatterns lib (StagePatterns (Git options)) gitRepo")
      show ?thesis
      proof (cases serr)
        case (Some e)
        with wt st dirty sp r show ?thesis by (simp add: commitChanges_def)
      next
        case None
        note staged = this
        let ?copts = "\<lparr>All = StageAllChanged (Git options),
                     Author = \<lparr>Name = AuthorName (Git options),
                               Email = AuthorEmail (Git options), When = now\<rparr>,
                     Committer = \<lparr>Name = CommitterName (Git options),
                                  Email = CommitterEmail (Git options), When = now\<rparr>\<rparr>"
        obtain res gitRepo2 where c:
          "Commit lib (commitMsg (Git options)) ?copts gitRepo1 = (res, gitRepo2)"
          by (cases "Commit lib (commitMsg (Git options)) ?copts gitRepo1")
        show ?thesis
        proof (cases res)
          case (Inl e)
          with wt st dirty sp staged c r show ?thesis by (simp add: commitChanges_def)
        next
          case (Inr commit)
          with wt st dirty sp staged c r have "changed" "err = None" "gitRepo' = gitRepo2"
            by (simp_all add: commitChanges_def)
          with c Inr show ?thesis by blast
        qed
      qed
    qed
  qed
qed

theorem commitChanges_changed_without_error_witness:
  "commitChanges mem 0 edited_clone unmatched_options
     = ((False, Some (Errorf ''failed to stage files using pattern CHANGELOG.md: ''
                        (New ''glob pattern did not match any files''))), edited_clone)
   \<and> commitChanges mem 0 edited_clone example_options = ((True, None), committed_clone)
   \<and> (\<exists>commit gitRepo1 copts.
         Commit mem (commitMsg (Git example_options)) copts gitRepo1 = (Inr commit, committed_clone))"
proof -
  have a: "commitChanges mem 0 edited_clone unmatched_options
     = ((False, Some (Errorf ''failed to stage files using pattern CHANGELOG.md: ''
                        (New ''glob pattern did not match any files''))), edited_clone)"
    by (simp add: commitChanges_def unmatched_options_def mem_simps)
  have b: "commitChanges mem 0 edited_clone example_options = ((True, None), committed_clone)"
    by (simp add: commitChanges_def committed_clone_def commitMsg_def mem_simps)
  from commitChanges_changed_without_error [OF b]
  have "\<exists>commit gitRepo1 copts.
         Commit mem (commitMsg (Git example_options)) copts gitRepo1 = (Inr commit, committed_clone)"
    by blast
  with a b show ?thesis by blast
qed

text \<open>
  C6, amended. During commitChanges on a dirty working tree the patterns are handed to
  AddGlob in their configured order, each in the state that the patterns before it have
  left. The first pattern for which AddGlob reports an error ends the call with a
  StageError that wraps that error and whose message names the pattern; the repository is
  returned as that AddGlob left it, so no later pattern is staged and no commit is made.
  When AddGlob reports no error for any pattern, Commit runs in the state the patterns have
  left. A pattern for which AddGlob reports no error and changes nothing is a no-op: the
  call gives what it gives without that pattern. commitChanges has no case of its own for
  a pattern that matches no files; what happens to it is what AddGlob answers.
\<close>

theorem commitChanges_staging:
  assumes "Worktree lib gitRepo = None" and "Status lib gitRepo = Inr status"
    and "\<not> IsClean lib status"
  shows
    "(StagePatterns (Git options) = pre @ pattern # post \<and> all_staged lib pre gitRepo
        \<and> AddGlob lib pattern (staged_by lib pre gitRepo) = (Some err, gitRepo')
      \<longrightarrow> (\<exists>e. commitChanges lib now gitRepo options = ((False, Some e), gitRepo')
                \<and> e = Errorf (''failed to stage files using pattern '' @ pattern @ '': '') err
                \<and> StageError e \<and> Contains (Error e) pattern))
     \<and> (all_staged lib (StagePatterns (Git options)) gitRepo
      \<longrightarrow> commitChanges lib now gitRepo options =
           (case Commit lib (commitMsg (Git options))
                   \<lparr>All = StageAllChanged (Git options),
                    Author = \<lparr>Name = AuthorName (Git options),
                              Email = AuthorEmail (Git options), When = now\<rparr>,
                    Committer = \<lparr>Name = CommitterName (Git options),
                                 Email = CommitterEmail (Git options), When = now\<rparr>\<rparr>
                   (staged_by lib (StagePatterns (Git options)) gitRepo) of
              (Inl err, gitRepo2) \<Rightarrow>
                ((False, Some (Errorf ''failed to commit: '' err)), gitRepo2)
            | (Inr commit, gitRepo2) \<Rightarrow> ((True, None), gitRepo2)))
     \<and> (StagePatterns (Git options) = pre @ pattern # post
        \<and> AddGlob lib pattern (staged_by lib pre gitRepo) = (None, staged_by lib pre gitRepo)
      \<longrightarrow> commitChanges lib now gitRepo options
            = commitChanges lib now gitRepo
                (options\<lparr>Git := (Git options)\<lparr>StagePatterns := pre @ post\<rparr>\<rparr>))"
proof (intro conjI impI)
  assume h: "StagePatterns (Git options) = pre @ pattern # post \<and> all_staged lib pre gitRepo
        \<and> AddGlob lib pattern (staged_by lib pre gitRepo) = (Some err, gitRepo')"
  then have "stagePatterns lib (StagePatterns (Git options)) gitRepo
           = (Some (Errorf (''failed to stage files using pattern '' @ pattern @ '': '') err),
              gitRepo')"
    by (simp add: stagePatterns_fails_at)
  with assms have "commitChanges lib now gitRepo options
      = ((False, Some (Errorf (''failed to stage files using pattern '' @ pattern @ '': '') err)),
         gitRepo')"
    by (simp add: commitChanges_def)
  moreover have "Contains (''failed to stage files using pattern '' @ pattern @ '': '' @ Error err) pattern"
    by (rule Contains_append)
  ultimately show "\<exists>e. commitChanges lib now gitRepo options = ((False, Some e), gitRepo')
                \<and> e = Errorf (''failed to stage files using pattern '' @ pattern @ '': '') err
                \<and> StageError e \<and> Contains (Error e) pattern"
    by (simp add: StageError_def)
next
  assume "all_staged lib (StagePatterns (Git options)) gitRepo"
  then have "stagePatterns lib (StagePatterns (Git options)) gitRepo
               = (None, staged_by lib (StagePatterns (Git options)) gitRepo)"
    by (simp add: stagePatterns_None_iff)
  with assms show "commitChanges lib now gitRepo options =
           (case Commit lib (commitMsg (Git options))
                   \<lparr>All = StageAllChanged (Git options),
                    Author = \<lparr>Name = AuthorName (Git options),
                              Email = AuthorEmail (Git options), When = now\<rparr>,
                    Committer = \<lparr>Name = CommitterName (Git options),
                                 Email = CommitterEmail (Git options), When = now\<rparr>\<rparr>
                   (staged_by lib (StagePatterns (Git options)) gitRepo) of
              (Inl err, gitRepo2) \<Rightarrow>
                ((False, Some (Errorf ''failed to commit: '' err)), gitRepo2)
            | (Inr commit, gitRepo2) \<Rightarrow> ((True, None), gitRepo2))"
    by (simp add: commitChanges_def)
next
  assume h: "StagePatterns (Git options) = pre @ pattern # post
        \<and> AddGlob lib pattern (staged_by lib pre gitRepo) = (None, staged_by lib pre gitRepo)"
  then have "stagePatterns lib (StagePatterns (Git options)) gitRepo
               = stagePatterns lib (pre @ post) gitRepo"
    by (simp add: stagePatterns_skip)
  moreover have "commitMsg ((Git options)\<lparr>StagePatterns := pre @ post\<rparr>) = commitMsg (Git options)"
    by (simp add: commitMsg_def Let_def)
  ultimately show "commitChanges lib now gitRepo options
            = commitChanges lib now gitRepo
                (options\<lparr>Git := (Git options)\<lparr>StagePatterns := pre @ post\<rparr>\<rparr>)"
    using assms
    by (simp add: commitChanges_def cong: prod.case_cong option.case_cong sum.case_cong)
qed

theorem commitChanges_staging_witness:
  "commitChanges mem 0 edited_clone unmatched_options
     = ((False, Some (Errorf ''failed to stage files using pattern CHANGELOG.md: ''
                        (New ''glob pattern did not match any files''))), edited_clone)
   \<and> StageError (Errorf ''failed to stage files using pattern CHANGELOG.md: ''
                        (New ''glob pattern did not match any files''))
   \<and> Contains ''failed to stage files using pattern CHANGELOG.md: glob pattern did not match any files''
         ''CHANGELOG.md''
   \<and> commitChanges mem 0 edited_clone example_options = ((True, None), committed_clone)
   \<and> commitChanges mem 0 edited_clone
         (example_options\<lparr>Git := (Git example_options)\<lparr>StagePatterns := [''go.mod'', ''README.md'']\<rparr>\<rparr>)
       = commitChanges mem 0 edited_clone
         (example_options\<lparr>Git := (Git example_options)\<lparr>StagePatterns := [''README.md'']\<rparr>\<rparr>)"
proof -
  have w: "Worktree mem edited_clone = None" by (simp add: mem_simps)
  have s: "Status mem edited_clone = Inr [''README.md'']" by (simp add: mem_simps)
  have d: "\<not> IsClean mem [''README.md'']" by (simp add: mem_simps)
  note t = commitChanges_staging [OF w s d, where now = 0]
  have p1: "StagePatterns (Git unmatched_options) = [] @ ''CHANGELOG.md'' # [''README.md'']"
    by (simp add: unmatched_options_def)
  have a1: "all_staged mem [] edited_clone" by (simp add: all_staged_def)
  have g1: "AddGlob mem ''CHANGELOG.md'' (staged_by mem [] edited_clone)
              = (Some (New ''glob pattern did not match any files''), edited_clone)"
    by (simp add: staged_by_def mem_simps)
  from t [of unmatched_options "[]" "''CHANGELOG.md''" "[''README.md'']"
      "New ''glob pattern did not match any files''" edited_clone, THEN conjunct1] p1 a1 g1
  have c1: "commitChanges mem 0 edited_clone unmatched_options
      = ((False, Some (Errorf ''failed to stage files using pattern CHANGELOG.md: ''
                        (New ''glob pattern did not match any files''))), edited_clone)
    \<and> StageError (Errorf ''failed to stage files using pattern CHANGELOG.md: ''
                        (New ''glob pattern did not match any files''))
    \<and> Contains ''failed to stage files using pattern CHANGELOG.md: glob pattern did not match any files''
         ''CHANGELOG.md''"
    by auto
  have a2: "all_staged mem (StagePatterns (Git example_options)) edited_clone"
    by (simp add: all_staged_def staged_by_def mem_simps)
  have st: "staged_by mem (StagePatterns (Git example_options)) edited_clone
              = edited_clone\<lparr>modified := [], staged := [''README.md'']\<rparr>"
    by (simp add: staged_by_def mem_simps)
  from t [of example_options, THEN conjunct2, THEN conjunct1] a2
  have c2: "commitChanges mem 0 edited_clone example_options = ((True, None), committed_clone)"
    by (simp add: st) (simp add: mem_simps commitMsg_def committed_clone_def)
  let ?o = "example_options\<lparr>Git := (Git example_options)\<lparr>StagePatterns := [''go.mod'', ''README.md'']\<rparr>\<rparr>"
  have p3: "StagePatterns (Git ?o) = [] @ ''go.mod'' # [''README.md'']" by simp
  have g3: "AddGlob mem ''go.mod'' (staged_by mem [] edited_clone)
              = (None, staged_by mem [] edited_clone)"
    by (simp add: staged_by_def mem_simps)
  from t [of ?o "[]" "''go.mod''" "[''README.md'']", THEN conjunct2, THEN conjunct2] p3 g3
  have c3: "commitChanges mem 0 edited_clone ?o
       = commitChanges mem 0 edited_clone
         (example_options\<lparr>Git := (Git example_options)\<lparr>StagePatterns := [''README.md'']\<rparr>\<rparr>)"
    by simp
  from c1 c2 c3 show ?thesis by blast
qed

text \<open>
  As the claim states it, a pattern that matches no files would cause no error. go-git's
  AddGlob answers such a pattern with the error \<^verbatim>\<open>glob pattern did not match any files\<close>,
  and commitChanges returns every error of AddGlob: with README.md modified and the
  patterns CHANGELOG.md and README.md configured, the call fails on CHANGELOG.md, stages
  nothing and commits nothing.
\<close>

theorem unmatched_pattern_counterexample:
  "''CHANGELOG.md'' \<notin> set (paths edited_clone)
   \<and> Worktree mem edited_clone = None
   \<and> Status mem edited_clone = Inr [''README.md''] \<and> \<not> IsClean mem [''README.md'']
   \<and> StagePatterns (Git unmatched_options) = [''CHANGELOG.md'', ''README.md'']
   \<and> commitChanges mem 0 edited_clone unmatched_options
       = ((False, Some (Errorf ''failed to stage files using pattern CHANGELOG.md: ''
                          (New ''glob pattern did not match any files''))), edited_clone)"
  by (simp add: commitChanges_def unmatched_options_def mem_simps)

section \<open>Properties of switchBranch\<close>

text \<open>
  C3. For every branch name, switchBranch with CreateBranch false, on a repository with a
  working tree in which the lookup of the remote-tracking reference
  \<^verbatim>\<open>refs/remotes/origin/<branch>\<close> reports an error (the reference is not in the store),
  fails with a BranchResolutionError that wraps that error, and leaves the repository as
  it found it. The result stays the same when SetReference and Checkout are replaced by
  anything else: no reference is stored and no checkout is performed.
\<close>

theorem switchBranch_missing_remote:
  assumes "Worktree lib gitRepo = None" and "\<not> CreateBranch opts"
    and "Reference lib (NewRemoteReferenceName ''origin'' (BranchName opts)) True gitRepo
           = (ref, Some err)"
  shows "\<exists>e. switchBranch lib gitRepo opts = Return (Some e, gitRepo)
           \<and> BranchResolutionError e \<and> Unwrap e = Some err
           \<and> switchBranch (lib\<lparr>SetReference := store, Checkout := checkout\<rparr>) gitRepo opts
               = Return (Some e, gitRepo)"
  using assms by (cases ref) (simp_all add: switchBranch_def BranchResolutionError_def fmt_Reference_def)

theorem switchBranch_missing_remote_witness:
  "Worktree mem fresh_clone = None
   \<and> Reference mem (NewRemoteReferenceName ''origin'' ''feature'') True fresh_clone
       = (None, Some (New ''reference not found''))
   \<and> (\<exists>e. switchBranch mem fresh_clone \<lparr>BranchName = ''feature'', CreateBranch = False\<rparr>
             = Return (Some e, fresh_clone)
           \<and> BranchResolutionError e \<and> Unwrap e = Some (New ''reference not found''))"
proof -
  have a: "Worktree mem fresh_clone = None" by (simp add: mem_simps)
  have b: "\<not> CreateBranch \<lparr>BranchName = ''feature'', CreateBranch = False\<rparr>" by simp
  have c: "Reference mem (NewRemoteReferenceName ''origin''
             (BranchName \<lparr>BranchName = ''feature'', CreateBranch = False\<rparr>)) True fresh_clone
       = (None, Some (New ''reference not found''))" by (simp add: mem_simps)
  from switchBranch_missing_remote [OF a b c] a c show ?thesis by auto
qed

text \<open>
  C7. When switchBranch runs with CreateBranch false on a repository with a working tree
  and the lookup finds the remote-tracking reference, the reference handed to
  SetReference is the hash reference named \<^verbatim>\<open>refs/heads/<branch>\<close> with exactly the hash of
  the remote-tracking reference; Checkout runs in the state that SetReference has left,
  so after the store and only when the store succeeded, and its target is
  \<^verbatim>\<open>refs/heads/<branch>\<close> with Create false.
\<close>

theorem switchBranch_pins_remote_tip:
  assumes "Worktree lib gitRepo = None" and "\<not> CreateBranch opts"
    and "Reference lib (NewRemoteReferenceName ''origin'' (BranchName opts)) True gitRepo
           = (Some remoteBranchRef, None)"
  shows "switchBranch lib gitRepo opts =
     (case SetReference lib
             \<lparr>t = HashReference, n = ''refs/heads/'' @ BranchName opts, h = h remoteBranchRef,
              target = []\<rparr> gitRepo of
        (Some err, gitRepo1) \<Rightarrow>
          Return (Some (Errorf (''failed to store the reference for branch ''
                                @ BranchName opts @ '': '') err), gitRepo1)
      | (None, gitRepo1) \<Rightarrow>
          (case Checkout lib \<lparr>Branch = ''refs/heads/'' @ BranchName opts, Create = False\<rparr>
                  gitRepo1 of
             (Some err, gitRepo2) \<Rightarrow>
               Return (Some (Errorf (''failed to checkout the branch '' @ BranchName opts
                                     @ '': '') err), gitRepo2)
           | (None, gitRepo2) \<Rightarrow> Return (None, gitRepo2)))"
  using assms
  by (simp add: switchBranch_def checkoutBranch_def NewHashReference_def
      NewBranchReferenceName_def split: prod.splits option.splits)

theorem switchBranch_pins_remote_tip_witness:
  "Worktree mem fresh_clone = None
   \<and> Reference mem (NewRemoteReferenceName ''origin'' ''update'') True fresh_clone
       = (Some \<lparr>t = HashReference, n = ''refs/remotes/origin/update'', h = ''b2'', target = []\<rparr>, None)
   \<and> switchBranch mem fresh_clone \<lparr>BranchName = ''update'', CreateBranch = False\<rparr>
       = Return (None,
           fresh_clone\<lparr>refs := (''refs/heads/update'',
                                 \<lparr>t = HashReference, n = ''refs/heads/update'', h = ''b2'', target = []\<rparr>)
                                # refs fresh_clone,
                        head := ''refs/heads/update''\<rparr>)"
proof -
  have a: "Worktree mem fresh_clone = None" by (simp add: mem_simps)
  have b: "\<not> CreateBranch \<lparr>BranchName = ''update'', CreateBranch = False\<rparr>" by simp
  have c: "Reference mem (NewRemoteReferenceName ''origin''
             (BranchName \<lparr>BranchName = ''update'', CreateBranch = False\<rparr>)) True fresh_clone
       = (Some \<lparr>t = HashReference, n = ''refs/remotes/origin/update'', h = ''b2'', target = []\<rparr>, None)"
    by (simp add: mem_simps)
  from switchBranch_pins_remote_tip [OF a b c] a c show ?thesis by (simp add: mem_simps)
qed

section \<open>Properties of cloneGitRepository and pushChanges\<close>

text \<open>
  C4. The reference that cloneGitRepository clones is \<^verbatim>\<open>refs/heads/<branch>\<close> exactly when
  the parameter map of the identity has an entry \<^verbatim>\<open>branch\<close> whose value is not blank (not
  empty and not made of white space only), and \<^verbatim>\<open>HEAD\<close> otherwise; the value goes into
  the reference as it is. This is the reference handed to PlainCloneContext.
\<close>

theorem cloneGitRepository_reference:
  "cloneReference repo =
     (case Params repo ''branch'' of
        None \<Rightarrow> ''HEAD''
      | Some b \<Rightarrow> if blank b then ''HEAD'' else ''refs/heads/'' @ b)
   \<and> (githubClient lib options env = (Inr token, env1)
      \<longrightarrow> cloneGitRepository lib repo localPath options env =
           (case PlainCloneContext lib localPath False
                   \<lparr>ReferenceName =
                      (case Params repo ''branch'' of
                         None \<Rightarrow> ''HEAD''
                       | Some b \<Rightarrow> if blank b then ''HEAD'' else ''refs/heads/'' @ b),
                    URL = cloneURL repo,
                    Auth = \<lparr>Username = ''x-access-token'', Password = token\<rparr>\<rparr> env1 of
              (Inl err, env2) \<Rightarrow>
                (Inl (Errorf (''failed to clone git repository from '' @ cloneURL repo
                              @ '' to '' @ localPath @ '': '') err), env2)
            | (Inr gitRepo, env2) \<Rightarrow> (Inr gitRepo, env2)))"
proof -
  have r: "cloneReference repo =
     (case Params repo ''branch'' of
        None \<Rightarrow> ''HEAD''
      | Some b \<Rightarrow> if blank b then ''HEAD'' else ''refs/heads/'' @ b)"
    by (simp add: cloneReference_def TrimSpace_empty_iff split: option.splits)
  have "githubClient lib options env = (Inr token, env1)
      \<Longrightarrow> cloneGitRepository lib repo localPath options env =
           (case PlainCloneContext lib localPath False
                   \<lparr>ReferenceName = cloneReference repo,
                    URL = cloneURL repo,
                    Auth = \<lparr>Username = ''x-access-token'', Password = token\<rparr>\<rparr> env1 of
              (Inl err, env2) \<Rightarrow>
                (Inl (Errorf (''failed to clone git repository from '' @ cloneURL repo
                              @ '' to '' @ localPath @ '': '') err), env2)
            | (Inr gitRepo, env2) \<Rightarrow> (Inr gitRepo, env2))"
    by (simp add: cloneGitRepository_def Let_def)
  with r show ?thesis by simp
qed

theorem cloneGitRepository_reference_witness:
  "cloneReference example_repository = ''refs/heads/update'' \<and> \<not> blank ''update''
   \<and> cloneReference blank_branch_repository = ''HEAD''
   \<and> blank [CHR 0x20, CHR 0x09, CHR 0xC2, CHR 0xA0]
   \<and> cloneReference (example_repository\<lparr>Params := Map.empty\<rparr>) = ''HEAD''
   \<and> githubClient mem () two_tokens = (Inr ''t1'', two_tokens\<lparr>tokens := [Inr ''t2'']\<rparr>)
   \<and> cloneGitRepository mem example_repository ''/tmp/work/octopilot'' () two_tokens
       = (Inr fresh_clone, after_clone)
   \<and> ReferenceName (snd (hd (clones after_clone))) = ''refs/heads/update''"
proof -
  have a: "cloneReference example_repository = ''refs/heads/update''"
    by (simp add: cloneReference_def example_repository_def TrimSpace_def TrimLeft_def
        TrimRight_def space_encodings_def)
  have b: "cloneReference blank_branch_repository = ''HEAD''"
    by (simp add: cloneReference_def blank_branch_repository_def TrimSpace_def TrimLeft_def
        TrimRight_def space_encodings_def)
  have c: "cloneReference (example_repository\<lparr>Params := Map.empty\<rparr>) = ''HEAD''"
    by (simp add: cloneReference_def)
  have p1: "Params example_repository ''branch'' = Some ''update''"
    by (simp add: example_repository_def)
  have p2: "Params blank_branch_repository ''branch'' = Some [CHR 0x20, CHR 0x09, CHR 0xC2, CHR 0xA0]"
    by (simp add: blank_branch_repository_def)
  note t1 = cloneGitRepository_reference [of example_repository, THEN conjunct1]
  note t2 = cloneGitRepository_reference [of blank_branch_repository, THEN conjunct1]
  have d: "\<not> blank ''update''"
  proof
    assume "blank ''update''"
    with t1 have "cloneReference example_repository = ''HEAD''" by (simp add: p1)
    with a show False by simp
  qed
  have e: "blank [CHR 0x20, CHR 0x09, CHR 0xC2, CHR 0xA0]"
  proof (rule ccontr)
    assume "\<not> blank [CHR 0x20, CHR 0x09, CHR 0xC2, CHR 0xA0]"
    with t2 have "cloneReference blank_branch_repository
                    = ''refs/heads/'' @ [CHR 0x20, CHR 0x09, CHR 0xC2, CHR 0xA0]"
      by (simp add: p2)
    with b show False by simp
  qed
  have g: "githubClient mem () two_tokens = (Inr ''t1'', two_tokens\<lparr>tokens := [Inr ''t2'']\<rparr>)"
    by (simp add: mem_simps)
  have u: "cloneURL example_repository = ''https://github.worldpay.com/mattzech/octopilot.git''"
    by (simp add: cloneURL_def example_repository_def)
  from cloneGitRepository_reference [of example_repository mem "()" two_tokens "''t1''"
      "two_tokens\<lparr>tokens := [Inr ''t2'']\<rparr>" "''/tmp/work/octopilot''", THEN conjunct2] g
  have f: "cloneGitRepository mem example_repository ''/tmp/work/octopilot'' () two_tokens
       = (Inr fresh_clone, after_clone)"
    using d by (simp add: p1 u) (simp add: mem_simps after_clone_def)
  have r: "ReferenceName (snd (hd (clones after_clone))) = ''refs/heads/update''"
    by (simp add: after_clone_def)
  from a b c d e f g r show ?thesis by blast
qed

text \<open>
  C5. For every branch name, the refspec of pushChanges is
  \<^verbatim>\<open>refs/heads/<branch>:refs/heads/<branch>\<close>, with \<^verbatim>\<open>+\<close> in front exactly when ForcePush is
  true. This is the one refspec handed to PushContext.
\<close>

theorem pushChanges_refspec:
  "pushRefSpec branchName forcePush
     = (if forcePush then ''+'' else []) @ ''refs/heads/'' @ branchName
       @ '':refs/heads/'' @ branchName
   \<and> (take 1 (pushRefSpec branchName forcePush) = ''+'') = forcePush
   \<and> (Worktree lib gitRepo = None \<and> githubClient lib (GitHubOpts opts) env = (Inr token, env1)
      \<longrightarrow> pushChanges lib gitRepo opts env =
           (case PushContext lib
                   \<lparr>RefSpecs = [(if ForcePush opts then ''+'' else []) @ ''refs/heads/''
                                 @ BranchName' opts @ '':refs/heads/'' @ BranchName' opts],
                    Auth' = \<lparr>Username = ''x-access-token'', Password = token\<rparr>\<rparr>
                   gitRepo env1 of
              (Some err, gitRepo', env2) \<Rightarrow>
                (Some (Errorf (''failed to push branch '' @ BranchName' opts @ '' to ''
                               @ filepath_Base (Root lib gitRepo) @ '': '') err),
                 gitRepo', env2)
            | (None, gitRepo', env2) \<Rightarrow> (None, gitRepo', env2)))"
  by (simp add: pushRefSpec_def pushChanges_def)

theorem pushChanges_refspec_witness:
  "Worktree mem fresh_clone = None
   \<and> githubClient mem (GitHubOpts example_push) two_tokens
        = (Inr ''t1'', two_tokens\<lparr>tokens := [Inr ''t2'']\<rparr>)
   \<and> pushChanges mem fresh_clone example_push two_tokens
       = (None, fresh_clone,
          two_tokens\<lparr>tokens := [Inr ''t2''],
                     pushes := [\<lparr>RefSpecs = [''+refs/heads/update:refs/heads/update''],
                                 Auth' = \<lparr>Username = ''x-access-token'', Password = ''t1''\<rparr>\<rparr>]\<rparr>)
   \<and> pushRefSpec ''update'' False = ''refs/heads/update:refs/heads/update''"
proof -
  have a: "Worktree mem fresh_clone = None" by (simp add: mem_simps)
  have b: "githubClient mem (GitHubOpts example_push) two_tokens
        = (Inr ''t1'', two_tokens\<lparr>tokens := [Inr ''t2'']\<rparr>)" by (simp add: mem_simps)
  from pushChanges_refspec [of "''update''" False mem fresh_clone example_push two_tokens "''t1''"
      "two_tokens\<lparr>tokens := [Inr ''t2'']\<rparr>"] a b
  show ?thesis by (simp add: mem_simps example_push_def)
qed

text \<open>
  C8. cloneGitRepository and pushChanges each call the token provider themselves, before
  their network operation: the clone and the push run in the world the token fetch has
  left, with the token of that fetch as password, and neither takes a token from
  anywhere else. When the token provider fails, the operation returns the wrapped error
  and the network operation is not attempted (replacing it by anything else changes
  nothing); for pushChanges the repository, with its clone and its commit, is returned
  as it was.
\<close>

theorem token_per_operation:
  "(githubClient lib options env = (Inr token, env1)
      \<longrightarrow> cloneGitRepository lib repo localPath options env =
           (case PlainCloneContext lib localPath False
                   \<lparr>ReferenceName = cloneReference repo, URL = cloneURL repo,
                    Auth = \<lparr>Username = ''x-access-token'', Password = token\<rparr>\<rparr> env1 of
              (Inl err, env2) \<Rightarrow>
                (Inl (Errorf (''failed to clone git repository from '' @ cloneURL repo
                              @ '' to '' @ localPath @ '': '') err), env2)
            | (Inr gitRepo, env2) \<Rightarrow> (Inr gitRepo, env2)))
   \<and> (githubClient lib options env = (Inl err, env1)
      \<longrightarrow> cloneGitRepository (lib\<lparr>PlainCloneContext := clone\<rparr>) repo localPath options env
           = (Inl (Errorf ''failed to create github client: '' err), env1))
   \<and> (Worktree lib gitRepo = None
        \<and> githubClient lib (GitHubOpts opts) env = (Inr token, env1)
      \<longrightarrow> pushChanges lib gitRepo opts env =
           (case PushContext lib
                   \<lparr>RefSpecs = [pushRefSpec (BranchName' opts) (ForcePush opts)],
                    Auth' = \<lparr>Username = ''x-access-token'', Password = token\<rparr>\<rparr>
                   gitRepo env1 of
              (Some err, gitRepo', env2) \<Rightarrow>
                (Some (Errorf (''failed to push branch '' @ BranchName' opts @ '' to ''
                               @ filepath_Base (Root lib gitRepo) @ '': '') err),
                 gitRepo', env2)
            | (None, gitRepo', env2) \<Rightarrow> (None, gitRepo', env2)))
   \<and> (Worktree lib gitRepo = None
        \<and> githubClient lib (GitHubOpts opts) env = (Inl err, env1)
      \<longrightarrow> pushChanges (lib\<lparr>PushContext := push\<rparr>) gitRepo opts env
           = (Some (Errorf ''failed to create github client: '' err), gitRepo, env1))"
  by (simp add: cloneGitRepository_def pushChanges_def Let_def)

theorem token_per_operation_witness:
  "cloneGitRepository mem example_repository ''/tmp/work/octopilot'' () two_tokens
     = (Inr fresh_clone, after_clone)
   \<and> pushChanges mem committed_clone example_push after_clone
       = (None, committed_clone,
          after_clone\<lparr>tokens := [],
                      pushes := [\<lparr>RefSpecs = [''+refs/heads/update:refs/heads/update''],
                                  Auth' = \<lparr>Username = ''x-access-token'', Password = ''t2''\<rparr>\<rparr>]\<rparr>)
   \<and> pushChanges mem committed_clone example_push token_failure
       = (Some (Errorf ''failed to create github client: ''
                  (New ''could not refresh installation token'')),
          committed_clone, after_clone\<lparr>tokens := []\<rparr>)
   \<and> cloneGitRepository mem example_repository ''/tmp/work/octopilot'' () token_failure
       = (Inl (Errorf ''failed to create github client: ''
                 (New ''could not refresh installation token'')), after_clone\<lparr>tokens := []\<rparr>)"
proof -
  have r: "cloneReference example_repository = ''refs/heads/update''"
    by (simp add: cloneReference_def example_repository_def TrimSpace_def TrimLeft_def
        TrimRight_def space_encodings_def)
  have u: "cloneURL example_repository = ''https://github.worldpay.com/mattzech/octopilot.git''"
    by (simp add: cloneURL_def example_repository_def)
  have w: "Worktree mem committed_clone = None" by (simp add: mem_simps committed_clone_def)
  have g1: "githubClient mem () two_tokens = (Inr ''t1'', two_tokens\<lparr>tokens := [Inr ''t2'']\<rparr>)"
    by (simp add: mem_simps)
  have g2: "githubClient mem (GitHubOpts example_push) after_clone
              = (Inr ''t2'', after_clone\<lparr>tokens := []\<rparr>)"
    by (simp add: mem_simps after_clone_def)
  have g3: "githubClient mem (GitHubOpts example_push) token_failure
              = (Inl (New ''could not refresh installation token''), after_clone\<lparr>tokens := []\<rparr>)"
    by (simp add: mem_simps after_clone_def token_failure_def)
  have g4: "githubClient mem () token_failure
              = (Inl (New ''could not refresh installation token''), after_clone\<lparr>tokens := []\<rparr>)"
    by (simp add: mem_simps after_clone_def token_failure_def)
  note t = token_per_operation [where lib = mem]
  have c1: "cloneGitRepository mem example_repository ''/tmp/work/octopilot'' () two_tokens
     = (Inr fresh_clone, after_clone)"
    using t [of "()" two_tokens "''t1''" "two_tokens\<lparr>tokens := [Inr ''t2'']\<rparr>" example_repository
        "''/tmp/work/octopilot''"] g1 r u
    by (simp add: mem_simps after_clone_def)
  have c2: "pushChanges mem committed_clone example_push after_clone
       = (None, committed_clone,
          after_clone\<lparr>tokens := [],
                      pushes := [\<lparr>RefSpecs = [''+refs/heads/update:refs/heads/update''],
                                  Auth' = \<lparr>Username = ''x-access-token'', Password = ''t2''\<rparr>\<rparr>]\<rparr>)"
    using t [where gitRepo = committed_clone and opts = example_push and env = after_clone
        and token = "''t2''" and ?env1.0 = "after_clone\<lparr>tokens := []\<rparr>"] w g2
    by (simp add: mem_simps after_clone_def example_push_def pushRefSpec_def)
  have c3: "pushChanges mem committed_clone example_push token_failure
       = (Some (Errorf ''failed to create github client: ''
                  (New ''could not refresh installation token'')),
          committed_clone, after_clone\<lparr>tokens := []\<rparr>)"
    using t [where gitRepo = committed_clone and opts = example_push and env = token_failure
        and err = "New ''could not refresh installation token''"
        and ?env1.0 = "after_clone\<lparr>tokens := []\<rparr>" and push = "PushContext mem"] w g3
    by simp
  have c4: "cloneGitRepository mem example_repository ''/tmp/work/octopilot'' () token_failure
       = (Inl (Errorf ''failed to create github client: ''
                 (New ''could not refresh installation token'')), after_clone\<lparr>tokens := []\<rparr>)"
    using t [where options = "()" and env = token_failure
        and err = "New ''could not refresh installation token''"
        and ?env1.0 = "after_clone\<lparr>tokens := []\<rparr>" and clone = "PlainCloneContext mem"
        and repo = example_repository and localPath = "''/tmp/work/octopilot''"] g4
    by simp
  from c1 c2 c3 c4 show ?thesis by blast
qed

section \<open>The errors of the four operations\<close>

text \<open>Every way in which each operation returns, with the calls that led there.\<close>

lemma all_staged_iff: "all_staged lib ps r \<longleftrightarrow> fst (stagePatterns lib ps r) = None"
proof
  assume "all_staged lib ps r"
  then have "stagePatterns lib ps r = (None, staged_by lib ps r)"
    by (simp add: stagePatterns_None_iff)
  then show "fst (stagePatterns lib ps r) = None" by simp
next
  assume "fst (stagePatterns lib ps r) = None"
  then have "stagePatterns lib ps r = (None, snd (stagePatterns lib ps r))"
    by (metis prod.collapse)
  then show "all_staged lib ps r" by (simp add: stagePatterns_None_iff)
qed

lemma stagePatterns_Some:
  "stagePatterns lib ps r = (Some e, r') \<Longrightarrow>
     \<exists>pre pattern post cause.
        ps = pre @ pattern # post \<and> all_staged lib pre r
        \<and> AddGlob lib pattern (staged_by lib pre r) = (Some cause, r')
        \<and> e = Errorf (''failed to stage files using pattern '' @ pattern @ '': '') cause"
proof (induction ps arbitrary: r)
  case Nil
  then show ?case by simp
next
  case (Cons p ps)
  obtain res r1 where a: "AddGlob lib p r = (res, r1)" by (cases "AddGlob lib p r")
  show ?case
  proof (cases res)
    case (Some c)
    with a Cons.prems have "r' = r1"
      and "e = Errorf (''failed to stage files using pattern '' @ p @ '': '') c" by simp_all
    with a Some have "p # ps = [] @ p # ps \<and> all_staged lib [] r
        \<and> AddGlob lib p (staged_by lib [] r) = (Some c, r')
        \<and> e = Errorf (''failed to stage files using pattern '' @ p @ '': '') c"
      by (simp add: all_staged_def staged_by_def)
    then show ?thesis by blast
  next
    case None
    with a Cons.prems have "stagePatterns lib ps r1 = (Some e, r')" by simp
    from Cons.IH [OF this] obtain pre pattern post cause where
      ps: "ps = pre @ pattern # post" and ok: "all_staged lib pre r1"
      and g: "AddGlob lib pattern (staged_by lib pre r1) = (Some cause, r')"
      and e: "e = Errorf (''failed to stage files using pattern '' @ pattern @ '': '') cause"
      by blast
    from a None ok have "all_staged lib (p # pre) r" by (simp add: all_staged_iff)
    moreover from a have "staged_by lib (p # pre) r = staged_by lib pre r1"
      by (simp add: staged_by_def)
    ultimately have "p # ps = (p # pre) @ pattern # post \<and> all_staged lib (p # pre) r
        \<and> AddGlob lib pattern (staged_by lib (p # pre) r) = (Some cause, r')
        \<and> e = Errorf (''failed to stage files using pattern '' @ pattern @ '': '') cause"
      using ps g e by simp
    then show ?thesis by blast
  qed
qed

lemma checkout_error:
  assumes "checkoutBranch lib r1 opts = (Some e, gitRepo')"
  shows "\<exists>cause. Checkout lib \<lparr>Branch = ''refs/heads/'' @ BranchName opts,
                                Create = CreateBranch opts\<rparr> r1 = (Some cause, gitRepo')
           \<and> e = Errorf (''failed to checkout the branch '' @ BranchName opts @ '': '') cause"
  using assms
  by (cases "Checkout lib \<lparr>Branch = ''refs/heads/'' @ BranchName opts,
                                Create = CreateBranch opts\<rparr> r1")
     (auto simp: checkoutBranch_def NewBranchReferenceName_def split: option.splits)

lemma checkout_ok:
  assumes "checkoutBranch lib r1 opts = (None, gitRepo')"
  shows "Checkout lib \<lparr>Branch = ''refs/heads/'' @ BranchName opts,
                       Create = CreateBranch opts\<rparr> r1 = (None, gitRepo')"
  using assms
  by (cases "Checkout lib \<lparr>Branch = ''refs/heads/'' @ BranchName opts,
                                Create = CreateBranch opts\<rparr> r1")
     (auto simp: checkoutBranch_def NewBranchReferenceName_def split: option.splits)

lemma switch_cases:
  assumes r: "switchBranch lib gitRepo opts = Return (res, gitRepo')"
  shows "(\<exists>cause. Worktree lib gitRepo = Some cause \<and> gitRepo' = gitRepo
            \<and> res = Some (Errorf ''failed to open worktree: '' cause))
       \<or> (\<exists>cause ref. Worktree lib gitRepo = None \<and> \<not> CreateBranch opts \<and> gitRepo' = gitRepo
            \<and> Reference lib (NewRemoteReferenceName ''origin'' (BranchName opts)) True gitRepo
                = (ref, Some cause)
            \<and> res = Some (Errorf (''failed to get the reference for '' @ fmt_Reference lib ref
                                   @ '': '') cause))
       \<or> (\<exists>cause ref. Worktree lib gitRepo = None \<and> \<not> CreateBranch opts
            \<and> Reference lib (NewRemoteReferenceName ''origin'' (BranchName opts)) True gitRepo
                = (Some ref, None)
            \<and> SetReference lib (NewHashReference (''refs/heads/'' @ BranchName opts) (h ref))
                 gitRepo = (Some cause, gitRepo')
            \<and> res = Some (Errorf (''failed to store the reference for branch ''
                                   @ BranchName opts @ '': '') cause))
       \<or> (\<exists>ref r1. Worktree lib gitRepo = None \<and> \<not> CreateBranch opts
            \<and> Reference lib (NewRemoteReferenceName ''origin'' (BranchName opts)) True gitRepo
                = (Some ref, None)
            \<and> SetReference lib (NewHashReference (''refs/heads/'' @ BranchName opts) (h ref))
                 gitRepo = (None, r1)
            \<and> checkoutBranch lib r1 opts = (res, gitRepo'))
       \<or> (Worktree lib gitRepo = None \<and> CreateBranch opts
            \<and> checkoutBranch lib gitRepo opts = (res, gitRepo'))"
proof (cases "Worktree lib gitRepo")
  case (Some cause)
  with r show ?thesis by (simp add: switchBranch_def)
next
  case None
  note wt = this
  show ?thesis
  proof (cases "CreateBranch opts")
    case True
    with wt r show ?thesis by (simp add: switchBranch_def)
  next
    case False
    note nc = this
    obtain ref err where l:
      "Reference lib (NewRemoteReferenceName ''origin'' (BranchName opts)) True gitRepo = (ref, err)"
      by (cases "Reference lib (NewRemoteReferenceName ''origin'' (BranchName opts)) True gitRepo")
    show ?thesis
    proof (cases err)
      case (Some cause)
      with wt nc l r show ?thesis by (cases ref) (simp_all add: switchBranch_def)
    next
      case None
      note noerr = this
      show ?thesis
      proof (cases ref)
        case None
        with wt nc l noerr r show ?thesis by (simp add: switchBranch_def)
      next
        case (Some rf)
        obtain serr r1 where s:
          "SetReference lib (NewHashReference (''refs/heads/'' @ BranchName opts) (h rf)) gitRepo
             = (serr, r1)"
          by (cases "SetReference lib (NewHashReference (''refs/heads/'' @ BranchName opts) (h rf)) gitRepo")
        show ?thesis
        proof (cases serr)
          case None
          with wt nc l noerr Some s r
          have "checkoutBranch lib r1 opts = (res, gitRepo')"
            by (simp add: switchBranch_def NewBranchReferenceName_def)
          with wt nc l noerr Some s None show ?thesis by blast
        next
          case (Some cause)
          with wt nc l noerr \<open>ref = Some rf\<close> s r
          have "gitRepo' = r1" "res = Some (Errorf (''failed to store the reference for branch ''
                                   @ BranchName opts @ '': '') cause)"
            by (simp_all add: switchBranch_def NewBranchReferenceName_def)
          with wt nc l noerr \<open>ref = Some rf\<close> s Some show ?thesis by blast
        qed
      qed
    qed
  qed
qed

lemma clone_cases:
  assumes r: "cloneGitRepository lib repo localPath options env = (res, env')"
  shows "(\<exists>cause. githubClient lib options env = (Inl cause, env')
            \<and> res = Inl (Errorf ''failed to create github client: '' cause))
       \<or> (\<exists>token env1 cause. githubClient lib options env = (Inr token, env1)
            \<and> PlainCloneContext lib localPath False
                 \<lparr>ReferenceName = cloneReference repo, URL = cloneURL repo,
                  Auth = \<lparr>Username = ''x-access-token'', Password = token\<rparr>\<rparr> env1
                = (Inl cause, env')
            \<and> res = Inl (Errorf (''failed to clone git repository from '' @ cloneURL repo
                                  @ '' to '' @ localPath @ '': '') cause))
       \<or> (\<exists>token env1 cloned. githubClient lib options env = (Inr token, env1)
            \<and> PlainCloneContext lib localPath False
                 \<lparr>ReferenceName = cloneReference repo, URL = cloneURL repo,
                  Auth = \<lparr>Username = ''x-access-token'', Password = token\<rparr>\<rparr> env1
                = (Inr cloned, env')
            \<and> res = Inr cloned)"
proof -
  obtain tres env1 where g: "githubClient lib options env = (tres, env1)"
    by (cases "githubClient lib options env")
  show ?thesis
  proof (cases tres)
    case (Inl cause)
    with g r show ?thesis by (auto simp: cloneGitRepository_def Let_def)
  next
    case (Inr token)
    obtain cres env2 where c: "PlainCloneContext lib localPath False
                 \<lparr>ReferenceName = cloneReference repo, URL = cloneURL repo,
                  Auth = \<lparr>Username = ''x-access-token'', Password = token\<rparr>\<rparr> env1 = (cres, env2)"
      by (cases "PlainCloneContext lib localPath False
                 \<lparr>ReferenceName = cloneReference repo, URL = cloneURL repo,
                  Auth = \<lparr>Username = ''x-access-token'', Password = token\<rparr>\<rparr> env1")
    show ?thesis
    proof (cases cres)
      case (Inl cause)
      with g \<open>tres = Inr token\<close> c r
      have "res = Inl (Errorf (''failed to clone git repository from '' @ cloneURL repo
                                  @ '' to '' @ localPath @ '': '') cause)" "env' = env2"
        by (simp_all add: cloneGitRepository_def Let_def)
      with g \<open>tres = Inr token\<close> c Inl show ?thesis by blast
    next
      case (Inr cloned)
      with g \<open>tres = Inr token\<close> c r have "res = Inr cloned" "env' = env2"
        by (simp_all add: cloneGitRepository_def Let_def)
      with g \<open>tres = Inr token\<close> c Inr show ?thesis by blast
    qed
  qed
qed

lemma switch_outcomes:
  assumes r: "switchBranch lib gitRepo sopts = Return (sres, gitRepo1)"
  shows "(\<exists>cause. Worktree lib gitRepo = Some cause
          \<and> sres = Some (Errorf ''failed to open worktree: '' cause))
     \<or> (\<exists>cause ref e.
            Reference lib (NewRemoteReferenceName ''origin'' (BranchName sopts)) True gitRepo
              = (ref, Some cause)
          \<and> sres = Some e \<and> wraps ''failed to get the reference for '' e
          \<and> Unwrap e = Some cause)
     \<or> (\<exists>cause ref. SetReference lib ref gitRepo = (Some cause, gitRepo1)
          \<and> sres = Some (Errorf (''failed to store the reference for branch ''
                                  @ BranchName sopts @ '': '') cause))
     \<or> (\<exists>cause r1.
            Checkout lib \<lparr>Branch = ''refs/heads/'' @ BranchName sopts,
                          Create = CreateBranch sopts\<rparr> r1 = (Some cause, gitRepo1)
          \<and> sres = Some (Errorf (''failed to checkout the branch '' @ BranchName sopts
                                  @ '': '') cause))
     \<or> (\<exists>r1. sres = None \<and> Worktree lib gitRepo = None
          \<and> (CreateBranch sopts \<and> r1 = gitRepo
              \<or> (\<exists>ref.
                    Reference lib (NewRemoteReferenceName ''origin'' (BranchName sopts)) True
                      gitRepo = (Some ref, None)
                  \<and> SetReference lib
                       (NewHashReference (''refs/heads/'' @ BranchName sopts) (h ref)) gitRepo
                      = (None, r1)))
          \<and> Checkout lib \<lparr>Branch = ''refs/heads/'' @ BranchName sopts,
                            Create = CreateBranch sopts\<rparr> r1 = (None, gitRepo1))"
proof -
  have co: "\<And>r1. checkoutBranch lib r1 sopts = (sres, gitRepo1) \<Longrightarrow>
      (\<exists>cause. Checkout lib \<lparr>Branch = ''refs/heads/'' @ BranchName sopts,
                              Create = CreateBranch sopts\<rparr> r1 = (Some cause, gitRepo1)
            \<and> sres = Some (Errorf (''failed to checkout the branch '' @ BranchName sopts
                                    @ '': '') cause))
      \<or> (Checkout lib \<lparr>Branch = ''refs/heads/'' @ BranchName sopts,
                              Create = CreateBranch sopts\<rparr> r1 = (None, gitRepo1) \<and> sres = None)"
  proof -
    fix r1 assume c: "checkoutBranch lib r1 sopts = (sres, gitRepo1)"
    show "(\<exists>cause. Checkout lib \<lparr>Branch = ''refs/heads/'' @ BranchName sopts,
                              Create = CreateBranch sopts\<rparr> r1 = (Some cause, gitRepo1)
            \<and> sres = Some (Errorf (''failed to checkout the branch '' @ BranchName sopts
                                    @ '': '') cause))
      \<or> (Checkout lib \<lparr>Branch = ''refs/heads/'' @ BranchName sopts,
                              Create = CreateBranch sopts\<rparr> r1 = (None, gitRepo1) \<and> sres = None)"
    proof (cases sres)
      case None
      with c checkout_ok [of lib r1 sopts gitRepo1] show ?thesis by simp
    next
      case (Some e)
      with c checkout_error [of lib r1 sopts e gitRepo1] show ?thesis by simp
    qed
  qed
  from switch_cases [OF r] show ?thesis
  proof (elim disjE exE conjE, goal_cases)
    case (1 cause)
    then show ?case by blast
  next
    case (2 cause ref)
    have "wraps ''failed to get the reference for ''
            (Errorf (''failed to get the reference for '' @ fmt_Reference lib ref @ '': '') cause)"
      "Unwrap (Errorf (''failed to get the reference for '' @ fmt_Reference lib ref @ '': '') cause)
         = Some cause"
      by simp_all
    with 2(4,5) show ?case by blast
  next
    case (3 cause ref)
    from 3(4,5) show ?case by blast
  next
    case (4 ref r1)
    from co [OF 4(5)] show ?case
    proof
      assume "\<exists>cause. Checkout lib \<lparr>Branch = ''refs/heads/'' @ BranchName sopts,
                              Create = CreateBranch sopts\<rparr> r1 = (Some cause, gitRepo1)
            \<and> sres = Some (Errorf (''failed to checkout the branch '' @ BranchName sopts
                                    @ '': '') cause)"
      then show ?case by blast
    next
      assume "Checkout lib \<lparr>Branch = ''refs/heads/'' @ BranchName sopts,
                              Create = CreateBranch sopts\<rparr> r1 = (None, gitRepo1) \<and> sres = None"
      with 4(1,3,4) show ?case by blast
    qed
  next
    case 5
    from co [OF 5(3)] show ?case
    proof
      assume "\<exists>cause. Checkout lib \<lparr>Branch = ''refs/heads/'' @ BranchName sopts,
                              Create = CreateBranch sopts\<rparr> gitRepo = (Some cause, gitRepo1)
            \<and> sres = Some (Errorf (''failed to checkout the branch '' @ BranchName sopts
                                    @ '': '') cause)"
      then show ?case by blast
    next
      assume "Checkout lib \<lparr>Branch = ''refs/heads/'' @ BranchName sopts,
                              Create = CreateBranch sopts\<rparr> gitRepo = (None, gitRepo1) \<and> sres = None"
      with 5(1,2) show ?case by blast
    qed
  qed
qed

lemma commit_cases:
  assumes r: "commitChanges lib now gitRepo uopts = ((changed, cres), gitRepo2)"
  shows "(\<exists>cause. Worktree lib gitRepo = Some cause
          \<and> cres = Some (Errorf ''failed to open worktree: '' cause))
     \<or> (\<exists>cause. Status lib gitRepo = Inl cause
          \<and> cres = Some (Errorf ''failed to get the worktree status: '' cause))
     \<or> (\<exists>pre pattern post cause.
            StagePatterns (Git uopts) = pre @ pattern # post \<and> all_staged lib pre gitRepo
          \<and> AddGlob lib pattern (staged_by lib pre gitRepo) = (Some cause, gitRepo2)
          \<and> cres = Some (Errorf (''failed to stage files using pattern '' @ pattern @ '': '')
                           cause))
     \<or> (\<exists>copts r1 cause. Commit lib (commitMsg (Git uopts)) copts r1 = (Inl cause, gitRepo2)
          \<and> cres = Some (Errorf ''failed to commit: '' cause))
     \<or> (\<exists>status. cres = None \<and> Worktree lib gitRepo = None
          \<and> Status lib gitRepo = Inr status
          \<and> (IsClean lib status
              \<or> all_staged lib (StagePatterns (Git uopts)) gitRepo
                \<and> (\<exists>copts commit.
                      Commit lib (commitMsg (Git uopts)) copts
                        (staged_by lib (StagePatterns (Git uopts)) gitRepo)
                      = (Inr commit, gitRepo2))))"
proof (cases "Worktree lib gitRepo")
  case (Some e)
  with r show ?thesis by (simp add: commitChanges_def)
next
  case None
  note wt = this
  show ?thesis
  proof (cases "Status lib gitRepo")
    case (Inl e)
    with wt r show ?thesis by (simp add: commitChanges_def)
  next
    case (Inr status)
    note st = this
    show ?thesis
    proof (cases "IsClean lib status")
      case True
      with wt st r show ?thesis by (simp add: commitChanges_def)
    next
      case False
      note dirty = this
      obtain serr r1 where sp:
        "stagePatterns lib (StagePatterns (Git uopts)) gitRepo = (serr, r1)"
        by (cases "stagePatterns lib (StagePatterns (Git uopts)) gitRepo")
      show ?thesis
      proof (cases serr)
        case (Some e)
        with wt st dirty sp r have "gitRepo2 = r1" "cres = Some e"
          by (simp_all add: commitChanges_def)
        moreover from sp Some stagePatterns_Some [of lib "StagePatterns (Git uopts)" gitRepo e r1]
        obtain pre pattern post cause where
          "StagePatterns (Git uopts) = pre @ pattern # post" "all_staged lib pre gitRepo"
          "AddGlob lib pattern (staged_by lib pre gitRepo) = (Some cause, r1)"
          "e = Errorf (''failed to stage files using pattern '' @ pattern @ '': '') cause"
          by blast
        ultimately show ?thesis by blast
      next
        case None
        note staged = this
        with sp have ok: "all_staged lib (StagePatterns (Git uopts)) gitRepo"
          and g1: "r1 = staged_by lib (StagePatterns (Git uopts)) gitRepo"
          by (simp_all add: stagePatterns_None_iff)
        let ?copts = "\<lparr>All = StageAllChanged (Git uopts),
                     Author = \<lparr>Name = AuthorName (Git uopts),
                               Email = AuthorEmail (Git uopts), When = now\<rparr>,
                     Committer = \<lparr>Name = CommitterName (Git uopts),
                                  Email = CommitterEmail (Git uopts), When = now\<rparr>\<rparr>"
        obtain res r2 where c:
          "Commit lib (commitMsg (Git uopts)) ?copts r1 = (res, r2)"
          by (cases "Commit lib (commitMsg (Git uopts)) ?copts r1")
        show ?thesis
        proof (cases res)
          case (Inl e)
          with wt st dirty sp staged c r
          have "gitRepo2 = r2" "cres = Some (Errorf ''failed to commit: '' e)"
            by (simp_all add: commitChanges_def)
          with c Inl show ?thesis by blast
        next
          case (Inr commit)
          with wt st dirty sp staged c r have "cres = None" "gitRepo2 = r2"
            by (simp_all add: commitChanges_def)
          with wt st ok g1 c Inr show ?thesis by blast
        qed
      qed
    qed
  qed
qed

lemma push_cases:
  assumes r: "pushChanges lib gitRepo popts env = (pres, gitRepo3, env')"
  shows "(\<exists>cause. Worktree lib gitRepo = Some cause
          \<and> pres = Some (Errorf ''failed to open worktree: '' cause))
     \<or> (\<exists>cause. githubClient lib (GitHubOpts popts) env = (Inl cause, env')
          \<and> pres = Some (Errorf ''failed to create github client: '' cause))
     \<or> (\<exists>token env1 cause.
            PushContext lib
              \<lparr>RefSpecs = [pushRefSpec (BranchName' popts) (ForcePush popts)],
               Auth' = \<lparr>Username = ''x-access-token'', Password = token\<rparr>\<rparr> gitRepo env1
              = (Some cause, gitRepo3, env')
          \<and> pres = Some (Errorf (''failed to push branch '' @ BranchName' popts @ '' to ''
                                  @ filepath_Base (Root lib gitRepo) @ '': '') cause))
     \<or> (\<exists>token env1. pres = None \<and> Worktree lib gitRepo = None
          \<and> githubClient lib (GitHubOpts popts) env = (Inr token, env1)
          \<and> PushContext lib
               \<lparr>RefSpecs = [pushRefSpec (BranchName' popts) (ForcePush popts)],
                Auth' = \<lparr>Username = ''x-access-token'', Password = token\<rparr>\<rparr> gitRepo env1
              = (None, gitRepo3, env'))"
proof (cases "Worktree lib gitRepo")
  case (Some e)
  with r show ?thesis by (simp add: pushChanges_def)
next
  case None
  note wt = this
  obtain tres env1 where g: "githubClient lib (GitHubOpts popts) env = (tres, env1)"
    by (cases "githubClient lib (GitHubOpts popts) env")
  show ?thesis
  proof (cases tres)
    case (Inl cause)
    with wt g r show ?thesis by (simp add: pushChanges_def)
  next
    case (Inr token)
    obtain res r1 env2 where p: "PushContext lib
                 \<lparr>RefSpecs = [pushRefSpec (BranchName' popts) (ForcePush popts)],
                  Auth' = \<lparr>Username = ''x-access-token'', Password = token\<rparr>\<rparr> gitRepo env1
                = (res, r1, env2)"
      by (cases "PushContext lib
                 \<lparr>RefSpecs = [pushRefSpec (BranchName' popts) (ForcePush popts)],
                  Auth' = \<lparr>Username = ''x-access-token'', Password = token\<rparr>\<rparr> gitRepo env1")
    show ?thesis
    proof (cases res)
      case None
      with wt g Inr p r have "pres = None" "gitRepo3 = r1" "env' = env2"
        by (simp_all add: pushChanges_def)
      with wt g Inr p None show ?thesis by blast
    next
      case (Some cause)
      with wt g Inr p r
      have "pres = Some (Errorf (''failed to push branch '' @ BranchName' popts @ '' to ''
                                   @ filepath_Base (Root lib gitRepo) @ '': '') cause)"
        "gitRepo3 = r1" "env' = env2"
        by (simp_all add: pushChanges_def)
      with p Some show ?thesis by blast
    qed
  qed
qed

text \<open>
  C9, amended. Every error that a call of the library or of the token provider reports
  to cloneGitRepository, switchBranch, commitChanges or pushChanges is returned to the
  caller wrapped under a message that names the step that failed, and none is swallowed:
  an operation returns no error only when every call it made has reported none. The
  message carries the URL and the local path for a clone failure, the branch name for a
  failure to store the branch reference and for a checkout failure, the pattern (not the
  branch name) for a staging failure, and the branch and repository names for a push
  failure; a worktree, token, status or commit failure carries the name of the step
  alone. For a failed lookup of the remote-tracking reference the statement says that
  the lookup error is wrapped under the name of the step, and no more.
\<close>

theorem errors_wrapped:
  "(cloneGitRepository lib repo localPath options env = (res, env') \<longrightarrow>
       (\<exists>cause. githubClient lib options env = (Inl cause, env')
          \<and> res = Inl (Errorf ''failed to create github client: '' cause))
     \<or> (\<exists>token env1 cause. githubClient lib options env = (Inr token, env1)
          \<and> PlainCloneContext lib localPath False
               \<lparr>ReferenceName = cloneReference repo, URL = cloneURL repo,
                Auth = \<lparr>Username = ''x-access-token'', Password = token\<rparr>\<rparr> env1
              = (Inl cause, env')
          \<and> res = Inl (Errorf (''failed to clone git repository from '' @ cloneURL repo
                                @ '' to '' @ localPath @ '': '') cause))
     \<or> (\<exists>token env1 cloned. githubClient lib options env = (Inr token, env1)
          \<and> PlainCloneContext lib localPath False
               \<lparr>ReferenceName = cloneReference repo, URL = cloneURL repo,
                Auth = \<lparr>Username = ''x-access-token'', Password = token\<rparr>\<rparr> env1
              = (Inr cloned, env')
          \<and> res = Inr cloned))
   \<and> (switchBranch lib gitRepo sopts = Return (sres, gitRepo1) \<longrightarrow>
       (\<exists>cause. Worktree lib gitRepo = Some cause
          \<and> sres = Some (Errorf ''failed to open worktree: '' cause))
     \<or> (\<exists>cause ref e.
            Reference lib (NewRemoteReferenceName ''origin'' (BranchName sopts)) True gitRepo
              = (ref, Some cause)
          \<and> sres = Some e \<and> wraps ''failed to get the reference for '' e
          \<and> Unwrap e = Some cause)
     \<or> (\<exists>cause ref. SetReference lib ref gitRepo = (Some cause, gitRepo1)
          \<and> sres = Some (Errorf (''failed to store the reference for branch ''
                                  @ BranchName sopts @ '': '') cause))
     \<or> (\<exists>cause r1.
            Checkout lib \<lparr>Branch = ''refs/heads/'' @ BranchName sopts,
                          Create = CreateBranch sopts\<rparr> r1 = (Some cause, gitRepo1)
          \<and> sres = Some (Errorf (''failed to checkout the branch '' @ BranchName sopts
                                  @ '': '') cause))
     \<or> (\<exists>r1. sres = None \<and> Worktree lib gitRepo = None
          \<and> (CreateBranch sopts \<and> r1 = gitRepo
              \<or> (\<exists>ref.
                    Reference lib (NewRemoteReferenceName ''origin'' (BranchName sopts)) True
                      gitRepo = (Some ref, None)
                  \<and> SetReference lib
                       (NewHashReference (''refs/heads/'' @ BranchName sopts) (h ref)) gitRepo
                      = (None, r1)))
          \<and> Checkout lib \<lparr>Branch = ''refs/heads/'' @ BranchName sopts,
                            Create = CreateBranch sopts\<rparr> r1 = (None, gitRepo1)))
   \<and> (commitChanges lib now gitRepo uopts = ((changed, cres), gitRepo2) \<longrightarrow>
       (\<exists>cause. Worktree lib gitRepo = Some cause
          \<and> cres = Some (Errorf ''failed to open worktree: '' cause))
     \<or> (\<exists>cause. Status lib gitRepo = Inl cause
          \<and> cres = Some (Errorf ''failed to get the worktree status: '' cause))
     \<or> (\<exists>pre pattern post cause.
            StagePatterns (Git uopts) = pre @ pattern # post \<and> all_staged lib pre gitRepo
          \<and> AddGlob lib pattern (staged_by lib pre gitRepo) = (Some cause, gitRepo2)
          \<and> cres = Some (Errorf (''failed to stage files using pattern '' @ pattern @ '': '')
                           cause))
     \<or> (\<exists>copts r1 cause. Commit lib (commitMsg (Git uopts)) copts r1 = (Inl cause, gitRepo2)
          \<and> cres = Some (Errorf ''failed to commit: '' cause))
     \<or> (\<exists>status. cres = None \<and> Worktree lib gitRepo = None
          \<and> Status lib gitRepo = Inr status
          \<and> (IsClean lib status
              \<or> all_staged lib (StagePatterns (Git uopts)) gitRepo
                \<and> (\<exists>copts commit.
                      Commit lib (commitMsg (Git uopts)) copts
                        (staged_by lib (StagePatterns (Git uopts)) gitRepo)
                      = (Inr commit, gitRepo2)))))
   \<and> (pushChanges lib gitRepo popts env = (pres, gitRepo3, env') \<longrightarrow>
       (\<exists>cause. Worktree lib gitRepo = Some cause
          \<and> pres = Some (Errorf ''failed to open worktree: '' cause))
     \<or> (\<exists>cause. githubClient lib (GitHubOpts popts) env = (Inl cause, env')
          \<and> pres = Some (Errorf ''failed to create github client: '' cause))
     \<or> (\<exists>token env1 cause.
            PushContext lib
              \<lparr>RefSpecs = [pushRefSpec (BranchName' popts) (ForcePush popts)],
               Auth' = \<lparr>Username = ''x-access-token'', Password = token\<rparr>\<rparr> gitRepo env1
              = (Some cause, gitRepo3, env')
          \<and> pres = Some (Errorf (''failed to push branch '' @ BranchName' popts @ '' to ''
                                  @ filepath_Base (Root lib gitRepo) @ '': '') cause))
     \<or> (\<exists>token env1. pres = None \<and> Worktree lib gitRepo = None
          \<and> githubClient lib (GitHubOpts popts) env = (Inr token, env1)
          \<and> PushContext lib
               \<lparr>RefSpecs = [pushRefSpec (BranchName' popts) (ForcePush popts)],
                Auth' = \<lparr>Username = ''x-access-token'', Password = token\<rparr>\<rparr> gitRepo env1
              = (None, gitRepo3, env')))"
  (is "(?clone \<longrightarrow> ?Clone) \<and> (?switch \<longrightarrow> ?Switch) \<and> (?commit \<longrightarrow> ?Commit)
       \<and> (?push \<longrightarrow> ?Push)")
proof (intro conjI impI)
  assume ?clone
  from clone_cases [OF this] show ?Clone .
next
  assume ?switch
  from switch_outcomes [OF this] show ?Switch .
next
  assume ?commit
  from commit_cases [OF this] show ?Commit .
next
  assume ?push
  from push_cases [OF this] show ?Push .
qed

theorem errors_wrapped_witness:
  "cloneGitRepository mem example_repository ''/tmp/work/octopilot'' () token_failure
     = (Inl (Errorf ''failed to create github client: ''
               (New ''could not refresh installation token'')), after_clone\<lparr>tokens := []\<rparr>)
   \<and> switchBranch mem fresh_clone \<lparr>BranchName = ''feature'', CreateBranch = False\<rparr>
       = Return (Some (Errorf ''failed to get the reference for <nil>: ''
                         (New ''reference not found'')), fresh_clone)
   \<and> commitChanges mem 0 edited_clone unmatched_options
       = ((False, Some (Errorf ''failed to stage files using pattern CHANGELOG.md: ''
                          (New ''glob pattern did not match any files''))), edited_clone)
   \<and> pushChanges mem committed_clone example_push token_failure
       = (Some (Errorf ''failed to create github client: ''
                  (New ''could not refresh installation token'')),
          committed_clone, after_clone\<lparr>tokens := []\<rparr>)
   \<and> (\<exists>cause. githubClient mem () token_failure = (Inl cause, after_clone\<lparr>tokens := []\<rparr>))
   \<and> (\<exists>cause ref. Reference mem ''refs/remotes/origin/feature'' True fresh_clone
                       = (ref, Some cause))
   \<and> (\<exists>pattern r1 cause. AddGlob mem pattern r1 = (Some cause, edited_clone))
   \<and> (\<exists>cause. githubClient mem (GitHubOpts example_push) token_failure
                  = (Inl cause, after_clone\<lparr>tokens := []\<rparr>))"
proof -
  have a: "cloneGitRepository mem example_repository ''/tmp/work/octopilot'' () token_failure
     = (Inl (Errorf ''failed to create github client: ''
               (New ''could not refresh installation token'')), after_clone\<lparr>tokens := []\<rparr>)"
    by (simp add: cloneGitRepository_def token_failure_def after_clone_def mem_simps)
  have b: "switchBranch mem fresh_clone \<lparr>BranchName = ''feature'', CreateBranch = False\<rparr>
       = Return (Some (Errorf ''failed to get the reference for <nil>: ''
                         (New ''reference not found'')), fresh_clone)"
    by (simp add: switchBranch_def fmt_Reference_def mem_simps)
  have c: "commitChanges mem 0 edited_clone unmatched_options
       = ((False, Some (Errorf ''failed to stage files using pattern CHANGELOG.md: ''
                          (New ''glob pattern did not match any files''))), edited_clone)"
    by (simp add: commitChanges_def unmatched_options_def mem_simps)
  have d: "pushChanges mem committed_clone example_push token_failure
       = (Some (Errorf ''failed to create github client: ''
                  (New ''could not refresh installation token'')),
          committed_clone, after_clone\<lparr>tokens := []\<rparr>)"
    by (simp add: pushChanges_def token_failure_def after_clone_def committed_clone_def
        example_push_def mem_simps)
  note t = errors_wrapped [where lib = mem]
  from t [THEN conjunct1, THEN mp, OF a]
  have e1: "\<exists>cause. githubClient mem () token_failure = (Inl cause, after_clone\<lparr>tokens := []\<rparr>)"
    by (elim disjE exE conjE) simp_all
  from t [THEN conjunct2, THEN conjunct1, THEN mp, OF b]
  have e2: "\<exists>cause ref. Reference mem ''refs/remotes/origin/feature'' True fresh_clone
                       = (ref, Some cause)"
    by (elim disjE exE conjE) (simp_all add: mem_simps)
  from t [THEN conjunct2, THEN conjunct2, THEN conjunct1, THEN mp, OF c]
  have e3: "\<exists>pattern r1 cause. AddGlob mem pattern r1 = (Some cause, edited_clone)"
    by (elim disjE exE conjE) (simp_all, blast+)
  from t [THEN conjunct2, THEN conjunct2, THEN conjunct2, THEN mp, OF d]
  have e4: "\<exists>cause. githubClient mem (GitHubOpts example_push) token_failure
                  = (Inl cause, after_clone\<lparr>tokens := []\<rparr>)"
    by (elim disjE exE conjE) (simp_all add: mem_simps committed_clone_def)
  from a b c d e1 e2 e3 e4 show ?thesis by blast
qed

text \<open>
  As the claim states it, the message of a branch-resolution failure and that of a
  staging failure would carry the branch name. After a failed lookup git.go formats the
  reference that the lookup returned, which is nil, and not the name it looked up: the
  message reads \<^verbatim>\<open>failed to get the reference for <nil>: reference not found\<close>, without the
  branch name \<^verbatim>\<open>feature\<close>. A staging failure names the pattern: commitChanges is given no
  branch name, and the branch checked out, \<^verbatim>\<open>main\<close>, is not in the message.
\<close>

theorem error_identifiers_counterexample:
  "switchBranch mem fresh_clone \<lparr>BranchName = ''feature'', CreateBranch = False\<rparr>
     = Return (Some (Errorf ''failed to get the reference for <nil>: ''
                       (New ''reference not found'')), fresh_clone)
   \<and> Error (Errorf ''failed to get the reference for <nil>: '' (New ''reference not found''))
       = ''failed to get the reference for <nil>: reference not found''
   \<and> \<not> Contains ''failed to get the reference for <nil>: reference not found'' ''feature''
   \<and> head edited_clone = ''refs/heads/main''
   \<and> commitChanges mem 0 edited_clone unmatched_options
       = ((False, Some (Errorf ''failed to stage files using pattern CHANGELOG.md: ''
                          (New ''glob pattern did not match any files''))), edited_clone)
   \<and> Error (Errorf ''failed to stage files using pattern CHANGELOG.md: ''
                          (New ''glob pattern did not match any files''))
       = ''failed to stage files using pattern CHANGELOG.md: glob pattern did not match any files''
   \<and> \<not> Contains
         ''failed to stage files using pattern CHANGELOG.md: glob pattern did not match any files''
         ''main''"
proof -
  have b: "switchBranch mem fresh_clone \<lparr>BranchName = ''feature'', CreateBranch = False\<rparr>
       = Return (Some (Errorf ''failed to get the reference for <nil>: ''
                         (New ''reference not found'')), fresh_clone)"
    by (simp add: switchBranch_def fmt_Reference_def mem_simps)
  have c: "commitChanges mem 0 edited_clone unmatched_options
       = ((False, Some (Errorf ''failed to stage files using pattern CHANGELOG.md: ''
                          (New ''glob pattern did not match any files''))), edited_clone)"
    by (simp add: commitChanges_def unmatched_options_def mem_simps)
  have n1: "\<not> Contains ''failed to get the reference for <nil>: reference not found'' ''feature''"
    by simp
  have n2: "\<not> Contains
         ''failed to stage files using pattern CHANGELOG.md: glob pattern did not match any files''
         ''main''"
    by simp
  have h: "head edited_clone = ''refs/heads/main''" by (simp add: mem_simps)
  from b c n1 n2 h show ?thesis by simp
qed

end
